theory Spec2Isabelle
  imports Main "HOL-Library.Word" "HOL-Library.Signed_Division"
begin

section \<open>Urbanite: a parking-aid controller built from cooperating state machines\<close>

text \<open>
  The C sources keep every peripheral as a struct that embeds the generic \<open>fsm_t\<close> and a
  static table of rows \<open>{orig_state, guard, dest_state, action}\<close>. Here a struct is a record,
  an enum of states is a datatype, \<open>uint32_t\<close> is \<open>32 word\<close> (arithmetic wraps), a table
  is a list of rows in the order of the C initialiser (the sentinel row \<open>{-1, NULL, -1, NULL}\<close>
  is the end of the list), a guard is a function to \<open>bool\<close>, an action is a function that
  returns the updated struct, and a \<open>NULL\<close> action is \<open>None\<close>.

  C identifiers that start with an underscore lose it (\<open>_compare\<close> is \<open>compare_u32\<close>,
  \<open>_linear_interp\<close> is \<open>linear_interp\<close>, and so on) and the static functions that share a
  name across files (\<open>check_on\<close>, \<open>check_off\<close>, \<open>check_active\<close>, ...) carry the name of
  their file as a prefix. Fields that share a name across structs carry a short prefix too.
  Console output (\<open>printf\<close>), GPIO writes and timer registers are not part of the model.
\<close>

type_synonym u8 = "8 word"
type_synonym u32 = "32 word"

subsection \<open>The generic engine (fsm.h, fsm.c)\<close>

type_synonym ('st, 'c) fsm_trans_t = "'st \<times> ('c \<Rightarrow> bool) \<times> 'st \<times> ('c \<Rightarrow> 'c) option"

text \<open>
  Modelled from the spec: \<open>fsm_fire\<close> of fsm.c, which is not among the sources. Section 4.1:
  fire "scans the table from the start, in order, for the first row whose source_state equals
  current_state AND whose guard evaluates true; if found, executes the row's action (if
  present) against the FSM's owning context, then sets current_state to the row's
  destination. If no row matches, current_state is unchanged and no action runs."
  \<open>fsm_select\<close> is the scan, \<open>fsm_fire\<close> the whole call. No action of this program reads
  or writes \<open>current_state\<close>, so the order of the action and the state update is immaterial.
  \<open>fsm_init\<close>, of the same file, "sets initial state to the table's first row's source
  state"; the constructors below write that state into the new struct.
\<close>

fun fsm_select :: "('st, 'c) fsm_trans_t list \<Rightarrow> 'st \<Rightarrow> 'c \<Rightarrow> ('st, 'c) fsm_trans_t option" where
  "fsm_select [] cur c = None"
| "fsm_select ((orig, guard, dest, out) # rows) cur c =
     (if orig = cur \<and> guard c then Some (orig, guard, dest, out)
      else fsm_select rows cur c)"

definition fsm_fire ::
  "('c \<Rightarrow> 'st) \<Rightarrow> ('st \<Rightarrow> 'c \<Rightarrow> 'c) \<Rightarrow> ('st, 'c) fsm_trans_t list \<Rightarrow> 'c \<Rightarrow> 'c" where
  "fsm_fire get_state set_state table c =
     (case fsm_select table (get_state c) c of
        None \<Rightarrow> c
      | Some (orig, guard, dest, out) \<Rightarrow>
          set_state dest (case out of None \<Rightarrow> c | Some action \<Rightarrow> action c))"

subsection \<open>Button FSM (fsm_button.h, fsm_button.c)\<close>

datatype FSM_BUTTON = BUTTON_RELEASED | BUTTON_RELEASED_WAIT | BUTTON_PRESSED | BUTTON_PRESSED_WAIT

record fsm_button_t =
  button_state :: FSM_BUTTON
  debounce_time_ms :: u32
  next_timeout :: u32
  tick_pressed :: u32
  duration :: u32
  button_id :: u32

text \<open>
  The guards and actions of the button read two values of the port layer:
  \<open>port_button_get_pressed(button_id)\<close>, the flag the EXTI interrupt routine sets on a
  falling edge and clears on a rising edge, and \<open>port_system_get_millis()\<close>, the SysTick
  counter. Both are inputs of a fire: \<open>pressed\<close> and \<open>millis\<close>.
\<close>

definition check_button_pressed :: "bool \<Rightarrow> fsm_button_t \<Rightarrow> bool" where
  "check_button_pressed pressed p_fsm = pressed"

definition check_button_released :: "bool \<Rightarrow> fsm_button_t \<Rightarrow> bool" where
  "check_button_released pressed p_fsm = (\<not> pressed)"

definition check_timeout :: "u32 \<Rightarrow> fsm_button_t \<Rightarrow> bool" where
  "check_timeout millis p_fsm = (millis > next_timeout p_fsm)"

definition do_store_tick_pressed :: "u32 \<Rightarrow> fsm_button_t \<Rightarrow> fsm_button_t" where
  "do_store_tick_pressed millis p_fsm =
     p_fsm\<lparr>tick_pressed := millis, next_timeout := millis + debounce_time_ms p_fsm\<rparr>"

definition do_set_duration :: "u32 \<Rightarrow> fsm_button_t \<Rightarrow> fsm_button_t" where
  "do_set_duration millis p_fsm =
     p_fsm\<lparr>duration := millis - tick_pressed p_fsm,
           next_timeout := millis + debounce_time_ms p_fsm\<rparr>"

definition fsm_trans_button :: "u32 \<Rightarrow> bool \<Rightarrow> (FSM_BUTTON, fsm_button_t) fsm_trans_t list" where
  "fsm_trans_button millis pressed =
     [(BUTTON_RELEASED, check_button_pressed pressed, BUTTON_PRESSED_WAIT,
         Some (do_store_tick_pressed millis)),
      (BUTTON_PRESSED_WAIT, check_timeout millis, BUTTON_PRESSED, None),
      (BUTTON_PRESSED, check_button_released pressed, BUTTON_RELEASED_WAIT,
         Some (do_set_duration millis)),
      (BUTTON_RELEASED_WAIT, check_timeout millis, BUTTON_RELEASED, None)]"

text \<open>
  \<open>fsm_button_init\<close> leaves \<open>next_timeout\<close> as \<open>malloc\<close> returned it; the value is a
  parameter here.
\<close>

definition fsm_button_new :: "u32 \<Rightarrow> u32 \<Rightarrow> u32 \<Rightarrow> fsm_button_t" where
  "fsm_button_new uninit debounce_time bid =
     \<lparr>button_state = BUTTON_RELEASED, debounce_time_ms = debounce_time,
      next_timeout = uninit, tick_pressed = 0, duration = 0, button_id = bid\<rparr>"

definition fsm_button_fire :: "u32 \<Rightarrow> bool \<Rightarrow> fsm_button_t \<Rightarrow> fsm_button_t" where
  "fsm_button_fire millis pressed p_fsm =
     fsm_fire button_state (\<lambda>st b. b\<lparr>button_state := st\<rparr>) (fsm_trans_button millis pressed) p_fsm"

definition fsm_button_get_duration :: "fsm_button_t \<Rightarrow> u32" where
  "fsm_button_get_duration p_fsm = duration p_fsm"

definition fsm_button_reset_duration :: "fsm_button_t \<Rightarrow> fsm_button_t" where
  "fsm_button_reset_duration p_fsm = p_fsm\<lparr>duration := 0\<rparr>"

definition fsm_button_check_activity :: "fsm_button_t \<Rightarrow> bool" where
  "fsm_button_check_activity p_fsm = (button_state p_fsm \<noteq> BUTTON_RELEASED)"

text \<open>
  A run of the polling loop as far as the button sees it: one fire per element, each with
  the time and the flag it reads. \<open>button_trace\<close> lists the states after each fire.
\<close>

fun button_run :: "fsm_button_t \<Rightarrow> (u32 \<times> bool) list \<Rightarrow> fsm_button_t" where
  "button_run p_fsm [] = p_fsm"
| "button_run p_fsm ((millis, pressed) # evs) = button_run (fsm_button_fire millis pressed p_fsm) evs"

fun button_trace :: "fsm_button_t \<Rightarrow> (u32 \<times> bool) list \<Rightarrow> FSM_BUTTON list" where
  "button_trace p_fsm [] = []"
| "button_trace p_fsm ((millis, pressed) # evs) =
     button_state (fsm_button_fire millis pressed p_fsm)
       # button_trace (fsm_button_fire millis pressed p_fsm) evs"

subsection \<open>Ultrasound FSM (fsm_ultrasound.c) and its port flags (stm32f4_ultrasound.c)\<close>

text \<open>
  The states are named in the transition table; their enum is declared in fsm_ultrasound.h,
  which is not among the sources, as are the macros \<open>FSM_ULTRASOUND_NUM_MEASUREMENTS\<close>
  and \<open>SPEED_OF_SOUND_MS\<close>. The two macros are parameters (\<open>NUM\<close>, an array length, and
  \<open>SPEED\<close>, an integer constant) of every function that uses them.
\<close>

datatype FSM_ULTRASOUND = WAIT_START | TRIGGER_START | WAIT_ECHO_START | WAIT_ECHO_END | SET_DISTANCE

text \<open>
  The flags and ticks of \<open>stm32f4_ultrasound_hw_t\<close>: the element \<open>ultrasound_arr[id]\<close>
  that an FSM reaches through its \<open>ultrasound_id\<close>. The interrupt routines write them
  between fires. GPIO and alternate-function fields are left out.
\<close>

record stm32f4_ultrasound_hw_t =
  trigger_ready :: bool
  trigger_end :: bool
  echo_received :: bool
  echo_init_tick :: u32
  echo_end_tick :: u32
  echo_overflows :: u32

definition port_ultrasound_reset_echo_ticks :: "stm32f4_ultrasound_hw_t \<Rightarrow> stm32f4_ultrasound_hw_t" where
  "port_ultrasound_reset_echo_ticks h =
     h\<lparr>echo_init_tick := 0, echo_end_tick := 0, echo_overflows := 0, echo_received := False\<rparr>"

definition port_ultrasound_start_measurement :: "stm32f4_ultrasound_hw_t \<Rightarrow> stm32f4_ultrasound_hw_t" where
  "port_ultrasound_start_measurement h = h\<lparr>trigger_ready := False\<rparr>"

text \<open>Stopping the trigger, echo and new-measurement timers only touches timer registers.\<close>

definition port_ultrasound_stop_ultrasound :: "stm32f4_ultrasound_hw_t \<Rightarrow> stm32f4_ultrasound_hw_t" where
  "port_ultrasound_stop_ultrasound h = port_ultrasound_reset_echo_ticks h"

definition port_ultrasound_init :: "stm32f4_ultrasound_hw_t" where
  "port_ultrasound_init =
     \<lparr>trigger_ready = True, trigger_end = False, echo_received = False,
      echo_init_tick = 0, echo_end_tick = 0, echo_overflows = 0\<rparr>"

text \<open>
  \<open>hw\<close> is not a field of the C struct: it is the port entry of this FSM's
  \<open>ultrasound_id\<close>, kept beside the struct so that guards and actions reach it. The front
  and the rear sensor have different ids in main.c, hence separate entries.
\<close>

record fsm_ultrasound_t =
  ultrasound_state :: FSM_ULTRASOUND
  us_distance_cm :: u32
  us_status :: bool
  new_measurement :: bool
  ultrasound_id :: u32
  distance_arr :: "u32 list"
  distance_idx :: u32
  hw :: stm32f4_ultrasound_hw_t

text \<open>
  \<open>_compare\<close>: the difference of the two \<open>uint32_t\<close> values wraps, and the conversion to
  the \<open>int\<close> result reads it as two's complement.
\<close>

definition compare_u32 :: "u32 \<Rightarrow> u32 \<Rightarrow> int" where
  "compare_u32 a b = sint (a - b)"

text \<open>
  \<open>qsort\<close> of the C library, driven by the comparison function it is given: an insertion
  sort that places \<open>x\<close> before the first \<open>y\<close> with \<open>cmp x y \<le> 0\<close>. The standard fixes no
  algorithm; where the comparison is a total order, as it is on the values the FSM stores
  (see \<open>qsort_compare_u32\<close> below), every algorithm returns the same array.
\<close>

fun qsort_insert :: "('a \<Rightarrow> 'a \<Rightarrow> int) \<Rightarrow> 'a \<Rightarrow> 'a list \<Rightarrow> 'a list" where
  "qsort_insert cmp x [] = [x]"
| "qsort_insert cmp x (y # ys) =
     (if cmp x y \<le> 0 then x # y # ys else y # qsort_insert cmp x ys)"

definition qsort :: "('a \<Rightarrow> 'a \<Rightarrow> int) \<Rightarrow> 'a list \<Rightarrow> 'a list" where
  "qsort cmp xs = foldr (qsort_insert cmp) xs []"

definition ultrasound_check_on :: "fsm_ultrasound_t \<Rightarrow> bool" where
  "ultrasound_check_on p_fsm = (trigger_ready (hw p_fsm) \<and> us_status p_fsm)"

definition ultrasound_check_off :: "fsm_ultrasound_t \<Rightarrow> bool" where
  "ultrasound_check_off p_fsm = (\<not> us_status p_fsm)"

definition check_trigger_end :: "fsm_ultrasound_t \<Rightarrow> bool" where
  "check_trigger_end p_fsm = trigger_end (hw p_fsm)"

definition check_echo_init :: "fsm_ultrasound_t \<Rightarrow> bool" where
  "check_echo_init p_fsm = (if echo_init_tick (hw p_fsm) > 0 then True else False)"

definition check_echo_received :: "fsm_ultrasound_t \<Rightarrow> bool" where
  "check_echo_received p_fsm = echo_received (hw p_fsm)"

definition check_new_measurement :: "fsm_ultrasound_t \<Rightarrow> bool" where
  "check_new_measurement p_fsm = trigger_ready (hw p_fsm)"

definition do_start_measurement :: "fsm_ultrasound_t \<Rightarrow> fsm_ultrasound_t" where
  "do_start_measurement p_fsm = p_fsm\<lparr>hw := port_ultrasound_start_measurement (hw p_fsm)\<rparr>"

definition do_stop_trigger :: "fsm_ultrasound_t \<Rightarrow> fsm_ultrasound_t" where
  "do_stop_trigger p_fsm = p_fsm\<lparr>hw := (hw p_fsm)\<lparr>trigger_end := False\<rparr>\<rparr>"

text \<open>The sample of one echo: \<open>time * SPEED_OF_SOUND_MS / 20000\<close> in \<open>uint32_t\<close> arithmetic.\<close>

definition echo_distance :: "u32 \<Rightarrow> stm32f4_ultrasound_hw_t \<Rightarrow> u32" where
  "echo_distance SPEED h =
     (echo_end_tick h + echo_overflows h * 65536 - echo_init_tick h) * SPEED div 20000"

text \<open>
  \<open>do_set_distance\<close> writes \<open>distance_arr[distance_idx]\<close>. The index is below \<open>NUM\<close>
  whenever the function runs (\<open>ultrasound_wf\<close>, kept by every function that writes the
  index); the model's list update does nothing outside the list, where C would write
  past the array.
\<close>

definition do_set_distance :: "nat \<Rightarrow> u32 \<Rightarrow> fsm_ultrasound_t \<Rightarrow> fsm_ultrasound_t" where
  "do_set_distance NUM SPEED p_fsm =
     (let distance = echo_distance SPEED (hw p_fsm);
          p1 = p_fsm\<lparr>distance_arr := (distance_arr p_fsm)[unat (distance_idx p_fsm) := distance]\<rparr>;
          p2 = (if unat (distance_idx p1) \<ge> NUM - 1
                then (let sorted_arr = qsort compare_u32 (distance_arr p1)
                      in p1\<lparr>distance_arr := sorted_arr,
                            us_distance_cm := sorted_arr ! (NUM div 2),
                            new_measurement := True\<rparr>)
                else p1);
          p3 = p2\<lparr>distance_idx := distance_idx p2 + 1\<rparr>;
          p4 = (if unat (distance_idx p3) \<ge> NUM then p3\<lparr>distance_idx := 0\<rparr> else p3)
      in p4\<lparr>hw := port_ultrasound_reset_echo_ticks (hw p4)\<rparr>)"

definition do_stop_measurement :: "fsm_ultrasound_t \<Rightarrow> fsm_ultrasound_t" where
  "do_stop_measurement p_fsm = p_fsm\<lparr>hw := port_ultrasound_stop_ultrasound (hw p_fsm)\<rparr>"

definition do_start_new_measurement :: "fsm_ultrasound_t \<Rightarrow> fsm_ultrasound_t" where
  "do_start_new_measurement p_fsm = do_start_measurement p_fsm"

definition fsm_trans_ultrasound :: "nat \<Rightarrow> u32 \<Rightarrow> (FSM_ULTRASOUND, fsm_ultrasound_t) fsm_trans_t list" where
  "fsm_trans_ultrasound NUM SPEED =
     [(WAIT_START, ultrasound_check_on, TRIGGER_START, Some do_start_measurement),
      (TRIGGER_START, check_trigger_end, WAIT_ECHO_START, Some do_stop_trigger),
      (WAIT_ECHO_START, check_echo_init, WAIT_ECHO_END, None),
      (WAIT_ECHO_END, check_echo_received, SET_DISTANCE, Some (do_set_distance NUM SPEED)),
      (SET_DISTANCE, check_new_measurement, TRIGGER_START, Some do_start_new_measurement),
      (SET_DISTANCE, ultrasound_check_off, WAIT_START, Some do_stop_measurement)]"

definition fsm_ultrasound_new :: "nat \<Rightarrow> u32 \<Rightarrow> fsm_ultrasound_t" where
  "fsm_ultrasound_new NUM uid =
     \<lparr>ultrasound_state = WAIT_START, us_distance_cm = 0, us_status = False,
      new_measurement = False, ultrasound_id = uid, distance_arr = replicate NUM 0,
      distance_idx = 0, hw = port_ultrasound_init\<rparr>"

definition fsm_ultrasound_fire :: "nat \<Rightarrow> u32 \<Rightarrow> fsm_ultrasound_t \<Rightarrow> fsm_ultrasound_t" where
  "fsm_ultrasound_fire NUM SPEED p_fsm =
     fsm_fire ultrasound_state (\<lambda>st u. u\<lparr>ultrasound_state := st\<rparr>) (fsm_trans_ultrasound NUM SPEED) p_fsm"

text \<open>\<open>fsm_ultrasound_get_distance\<close> clears the flag and returns the distance.\<close>

definition fsm_ultrasound_get_distance :: "fsm_ultrasound_t \<Rightarrow> u32 \<times> fsm_ultrasound_t" where
  "fsm_ultrasound_get_distance p_fsm = (us_distance_cm p_fsm, p_fsm\<lparr>new_measurement := False\<rparr>)"

definition fsm_ultrasound_stop :: "fsm_ultrasound_t \<Rightarrow> fsm_ultrasound_t" where
  "fsm_ultrasound_stop p_fsm =
     p_fsm\<lparr>us_status := False, hw := port_ultrasound_stop_ultrasound (hw p_fsm)\<rparr>"

definition fsm_ultrasound_start :: "fsm_ultrasound_t \<Rightarrow> fsm_ultrasound_t" where
  "fsm_ultrasound_start p_fsm =
     p_fsm\<lparr>us_status := True, distance_idx := 0, us_distance_cm := 0,
           hw := (port_ultrasound_reset_echo_ticks (hw p_fsm))\<lparr>trigger_ready := True\<rparr>\<rparr>"

definition fsm_ultrasound_get_new_measurement_ready :: "fsm_ultrasound_t \<Rightarrow> bool" where
  "fsm_ultrasound_get_new_measurement_ready p_fsm = new_measurement p_fsm"

definition fsm_ultrasound_check_activity :: "fsm_ultrasound_t \<Rightarrow> bool" where
  "fsm_ultrasound_check_activity p_fsm = False"

text \<open>
  The struct as \<open>do_set_distance\<close> expects it: an array of \<open>NUM\<close> elements, where \<open>NUM\<close>
  is a positive length that fits a \<open>uint32_t\<close>, and the index inside the array.
\<close>

definition ultrasound_wf :: "nat \<Rightarrow> fsm_ultrasound_t \<Rightarrow> bool" where
  "ultrasound_wf NUM p_fsm =
     (0 < NUM \<and> NUM < 2 ^ 32 \<and> length (distance_arr p_fsm) = NUM
      \<and> unat (distance_idx p_fsm) < NUM)"

text \<open>
  The echo interrupt writes the ticks of one measurement, then the FSM stores the sample:
  \<open>set_echo\<close> is the former, \<open>store_samples\<close> repeats the pair for a list of measurements
  \<open>(overflows, init_tick, end_tick)\<close>.
\<close>

definition set_echo :: "u32 \<times> u32 \<times> u32 \<Rightarrow> stm32f4_ultrasound_hw_t \<Rightarrow> stm32f4_ultrasound_hw_t" where
  "set_echo e h =
     (case e of (ovf, ini, en) \<Rightarrow>
        h\<lparr>echo_overflows := ovf, echo_init_tick := ini, echo_end_tick := en, echo_received := True\<rparr>)"

fun store_samples :: "nat \<Rightarrow> u32 \<Rightarrow> fsm_ultrasound_t \<Rightarrow> (u32 \<times> u32 \<times> u32) list \<Rightarrow> fsm_ultrasound_t" where
  "store_samples NUM SPEED p_fsm [] = p_fsm"
| "store_samples NUM SPEED p_fsm (e # es) =
     store_samples NUM SPEED (do_set_distance NUM SPEED (p_fsm\<lparr>hw := set_echo e (hw p_fsm)\<rparr>)) es"

definition sample_of :: "u32 \<Rightarrow> u32 \<times> u32 \<times> u32 \<Rightarrow> u32" where
  "sample_of SPEED e = (case e of (ovf, ini, en) \<Rightarrow> (en + ovf * 65536 - ini) * SPEED div 20000)"

text \<open>
  A sensor that is switched off in the middle of a cycle: started, fired through one whole
  measurement (the trigger timer, the two echo edges and one stored sample of 600
  microseconds), then, while the FSM waits in \<open>SET_DISTANCE\<close>, the new-measurement timer
  raises \<open>trigger_ready\<close> and the orchestrator calls \<open>fsm_ultrasound_stop\<close> before the next
  fire of the sensor.
\<close>

definition disabled_mid_cycle :: fsm_ultrasound_t where
  "disabled_mid_cycle =
     (let u0 = fsm_ultrasound_start (fsm_ultrasound_new 5 1);
          u1 = fsm_ultrasound_fire 5 343 u0;
          u2 = fsm_ultrasound_fire 5 343 (u1\<lparr>hw := (hw u1)\<lparr>trigger_end := True\<rparr>\<rparr>);
          u3 = fsm_ultrasound_fire 5 343 (u2\<lparr>hw := (hw u2)\<lparr>echo_init_tick := 100\<rparr>\<rparr>);
          u4 = fsm_ultrasound_fire 5 343 (u3\<lparr>hw := set_echo (0, 100, 700) (hw u3)\<rparr>)
      in fsm_ultrasound_stop (u4\<lparr>hw := (hw u4)\<lparr>trigger_ready := True\<rparr>\<rparr>))"

subsection \<open>Display FSM (fsm_display.h, fsm_display.c, port_display.h)\<close>

definition HIGH_DANGER_MIN_CM :: int where "HIGH_DANGER_MIN_CM = 0"
definition DANGER_MIN_CM :: int where "DANGER_MIN_CM = 5"
definition WARNING_MIN_CM :: int where "WARNING_MIN_CM = 25"
definition NO_PROBLEM_MIN_CM :: int where "NO_PROBLEM_MIN_CM = 50"
definition INFO_MIN_CM :: int where "INFO_MIN_CM = 150"
definition OK_MIN_CM :: int where "OK_MIN_CM = 175"
definition OK_MAX_CM :: int where "OK_MAX_CM = 200"

record rgb_color_t =
  r :: u8
  g :: u8
  b :: u8

definition PORT_DISPLAY_RGB_MAX_VALUE :: int where "PORT_DISPLAY_RGB_MAX_VALUE = 255"

text \<open>
  The initialisers of the colour macros are \<open>int\<close> expressions (C division truncates, written
  \<open>sdiv\<close>) stored into \<open>uint8_t\<close> fields.
\<close>

definition COLOR_RED :: rgb_color_t where
  "COLOR_RED = \<lparr>r = word_of_int PORT_DISPLAY_RGB_MAX_VALUE, g = 0, b = 0\<rparr>"

definition COLOR_GREEN :: rgb_color_t where
  "COLOR_GREEN = \<lparr>r = 0, g = word_of_int PORT_DISPLAY_RGB_MAX_VALUE, b = 0\<rparr>"

definition COLOR_BLUE :: rgb_color_t where
  "COLOR_BLUE = \<lparr>r = 0, g = 0, b = word_of_int PORT_DISPLAY_RGB_MAX_VALUE\<rparr>"

definition COLOR_YELLOW :: rgb_color_t where
  "COLOR_YELLOW =
     \<lparr>r = word_of_int (PORT_DISPLAY_RGB_MAX_VALUE * 37 sdiv 100),
      g = word_of_int (PORT_DISPLAY_RGB_MAX_VALUE * 37 sdiv 100), b = 0\<rparr>"

definition COLOR_TURQUOISE :: rgb_color_t where
  "COLOR_TURQUOISE =
     \<lparr>r = word_of_int (PORT_DISPLAY_RGB_MAX_VALUE sdiv 10),
      g = word_of_int (PORT_DISPLAY_RGB_MAX_VALUE * 35 sdiv 100),
      b = word_of_int (PORT_DISPLAY_RGB_MAX_VALUE * 32 sdiv 100)\<rparr>"

definition COLOR_OFF :: rgb_color_t where
  "COLOR_OFF = \<lparr>r = 0, g = 0, b = 0\<rparr>"

text \<open>
  \<open>_linear_interp\<close>: the \<open>uint8_t\<close> channels are promoted to \<open>int\<close>, the distances are
  \<open>int32_t\<close>, each product is divided before the sum is taken, and the three \<open>int32_t\<close>
  results are narrowed to \<open>uint8_t\<close>. The only caller passes a distance inside the tier, so
  no product leaves the \<open>int32_t\<close> range and no divisor is zero; the integers are
  unbounded here.
\<close>

definition linear_interp :: "rgb_color_t \<Rightarrow> rgb_color_t \<Rightarrow> int \<Rightarrow> int \<Rightarrow> int \<Rightarrow> rgb_color_t" where
  "linear_interp color_inf color_sup distance_inf distance_sup distance_cm =
     (let red = uint (r color_inf) * (distance_sup - distance_cm) sdiv (distance_sup - distance_inf)
                + uint (r color_sup) * (distance_cm - distance_inf) sdiv (distance_sup - distance_inf);
          green = uint (g color_inf) * (distance_sup - distance_cm) sdiv (distance_sup - distance_inf)
                + uint (g color_sup) * (distance_cm - distance_inf) sdiv (distance_sup - distance_inf);
          blue = uint (b color_inf) * (distance_sup - distance_cm) sdiv (distance_sup - distance_inf)
                + uint (b color_sup) * (distance_cm - distance_inf) sdiv (distance_sup - distance_inf)
      in \<lparr>r = word_of_int red, g = word_of_int green, b = word_of_int blue\<rparr>)"

text \<open>\<open>_compute_display_levels\<close>; the argument is the value of the \<open>int32_t\<close> parameter.\<close>

definition compute_display_levels :: "int \<Rightarrow> rgb_color_t" where
  "compute_display_levels distance_cm =
     (if distance_cm \<ge> HIGH_DANGER_MIN_CM \<and> distance_cm \<le> DANGER_MIN_CM then COLOR_RED
      else if distance_cm > DANGER_MIN_CM \<and> distance_cm \<le> WARNING_MIN_CM
        then linear_interp COLOR_RED COLOR_YELLOW DANGER_MIN_CM WARNING_MIN_CM distance_cm
      else if distance_cm > WARNING_MIN_CM \<and> distance_cm \<le> NO_PROBLEM_MIN_CM
        then linear_interp COLOR_YELLOW COLOR_GREEN WARNING_MIN_CM NO_PROBLEM_MIN_CM distance_cm
      else if distance_cm > NO_PROBLEM_MIN_CM \<and> distance_cm \<le> INFO_MIN_CM
        then linear_interp COLOR_GREEN COLOR_TURQUOISE NO_PROBLEM_MIN_CM INFO_MIN_CM distance_cm
      else if distance_cm > INFO_MIN_CM \<and> distance_cm \<le> OK_MIN_CM
        then linear_interp COLOR_TURQUOISE COLOR_BLUE INFO_MIN_CM OK_MIN_CM distance_cm
      else if distance_cm > OK_MIN_CM \<and> distance_cm \<le> OK_MAX_CM
        then linear_interp COLOR_BLUE COLOR_OFF OK_MIN_CM OK_MAX_CM distance_cm
      else COLOR_OFF)"

datatype FSM_DISPLAY_SYSTEM = WAIT_DISPLAY | SET_DISPLAY

text \<open>
  \<open>disp_distance_cm\<close> holds the bits of the \<open>int32_t\<close> field (\<open>sint\<close> reads its value);
  \<open>rgb\<close> is the colour last handed to \<open>port_display_set_rgb\<close>, kept as the output of the FSM.
\<close>

record fsm_display_t =
  display_state :: FSM_DISPLAY_SYSTEM
  disp_distance_cm :: u32
  new_color :: bool
  disp_status :: bool
  disp_idle :: bool
  display_id :: u32
  rgb :: rgb_color_t

definition check_set_new_color :: "fsm_display_t \<Rightarrow> bool" where
  "check_set_new_color p_fsm = new_color p_fsm"

definition display_check_active :: "fsm_display_t \<Rightarrow> bool" where
  "display_check_active p_fsm = disp_status p_fsm"

definition display_check_off :: "fsm_display_t \<Rightarrow> bool" where
  "display_check_off p_fsm = (\<not> disp_status p_fsm)"

definition display_do_set_on :: "fsm_display_t \<Rightarrow> fsm_display_t" where
  "display_do_set_on p_fsm = p_fsm\<lparr>rgb := COLOR_OFF\<rparr>"

definition do_set_color :: "fsm_display_t \<Rightarrow> fsm_display_t" where
  "do_set_color p_fsm =
     p_fsm\<lparr>rgb := compute_display_levels (sint (disp_distance_cm p_fsm)),
           new_color := False, disp_idle := True\<rparr>"

definition display_do_set_off :: "fsm_display_t \<Rightarrow> fsm_display_t" where
  "display_do_set_off p_fsm = p_fsm\<lparr>rgb := COLOR_OFF, disp_idle := False\<rparr>"

definition fsm_trans_display :: "(FSM_DISPLAY_SYSTEM, fsm_display_t) fsm_trans_t list" where
  "fsm_trans_display =
     [(WAIT_DISPLAY, display_check_active, SET_DISPLAY, Some display_do_set_on),
      (SET_DISPLAY, check_set_new_color, SET_DISPLAY, Some do_set_color),
      (SET_DISPLAY, display_check_off, WAIT_DISPLAY, Some display_do_set_off)]"

text \<open>\<open>port_display_init\<close> ends with \<open>port_display_set_rgb(display_id, COLOR_OFF)\<close>.\<close>

definition fsm_display_new :: "u32 \<Rightarrow> fsm_display_t" where
  "fsm_display_new did =
     \<lparr>display_state = WAIT_DISPLAY, disp_distance_cm = - 1, new_color = False,
      disp_status = False, disp_idle = False, display_id = did, rgb = COLOR_OFF\<rparr>"

definition fsm_display_fire :: "fsm_display_t \<Rightarrow> fsm_display_t" where
  "fsm_display_fire p_fsm =
     fsm_fire display_state (\<lambda>st d. d\<lparr>display_state := st\<rparr>) fsm_trans_display p_fsm"

definition fsm_display_set_distance :: "u32 \<Rightarrow> fsm_display_t \<Rightarrow> fsm_display_t" where
  "fsm_display_set_distance distance_cm p_fsm =
     p_fsm\<lparr>disp_distance_cm := distance_cm, new_color := True\<rparr>"

definition fsm_display_set_status :: "bool \<Rightarrow> fsm_display_t \<Rightarrow> fsm_display_t" where
  "fsm_display_set_status status p_fsm = p_fsm\<lparr>disp_status := status\<rparr>"

definition fsm_display_check_activity :: "fsm_display_t \<Rightarrow> bool" where
  "fsm_display_check_activity p_fsm = (disp_status p_fsm \<and> \<not> disp_idle p_fsm)"

subsection \<open>Buzzer FSM (fsm_buzzer.h, fsm_buzzer.c, port_buzzer.h)\<close>

definition PORT_BUZZER_MAX_VALUE :: int where "PORT_BUZZER_MAX_VALUE = 255"
definition PORT_BUZZER_MIN_VALUE :: int where "PORT_BUZZER_MIN_VALUE = 0"

text \<open>\<open>_compute_buzzer_levels\<close>: an \<open>int\<close> expression narrowed to the \<open>uint8_t\<close> result.\<close>

definition compute_buzzer_levels :: "int \<Rightarrow> u8" where
  "compute_buzzer_levels distance_cm =
     (if distance_cm \<ge> HIGH_DANGER_MIN_CM \<and> distance_cm \<le> OK_MAX_CM
      then word_of_int (PORT_BUZZER_MAX_VALUE * (OK_MAX_CM - distance_cm) sdiv OK_MAX_CM)
      else word_of_int PORT_BUZZER_MIN_VALUE)"

datatype FSM_BUZZER_SYSTEM = WAIT_BUZZER | SET_BUZZER

text \<open>\<open>sound\<close> is the level last handed to \<open>port_buzzer_set_sound\<close>.\<close>

record fsm_buzzer_t =
  buzzer_state :: FSM_BUZZER_SYSTEM
  bz_distance_cm :: u32
  new_sound :: bool
  bz_status :: bool
  bz_idle :: bool
  buzzer_id :: u32
  sound :: u8

definition check_set_new_sound :: "fsm_buzzer_t \<Rightarrow> bool" where
  "check_set_new_sound p_fsm = new_sound p_fsm"

definition buzzer_check_active :: "fsm_buzzer_t \<Rightarrow> bool" where
  "buzzer_check_active p_fsm = bz_status p_fsm"

definition buzzer_check_off :: "fsm_buzzer_t \<Rightarrow> bool" where
  "buzzer_check_off p_fsm = (\<not> bz_status p_fsm)"

definition buzzer_do_set_on :: "fsm_buzzer_t \<Rightarrow> fsm_buzzer_t" where
  "buzzer_do_set_on p_fsm = p_fsm\<lparr>sound := word_of_int PORT_BUZZER_MIN_VALUE\<rparr>"

definition do_set_sound :: "fsm_buzzer_t \<Rightarrow> fsm_buzzer_t" where
  "do_set_sound p_fsm =
     p_fsm\<lparr>sound := compute_buzzer_levels (sint (bz_distance_cm p_fsm)),
           new_sound := False, bz_idle := True\<rparr>"

definition buzzer_do_set_off :: "fsm_buzzer_t \<Rightarrow> fsm_buzzer_t" where
  "buzzer_do_set_off p_fsm = p_fsm\<lparr>sound := word_of_int PORT_BUZZER_MIN_VALUE, bz_idle := False\<rparr>"

definition fsm_trans_buzzer :: "(FSM_BUZZER_SYSTEM, fsm_buzzer_t) fsm_trans_t list" where
  "fsm_trans_buzzer =
     [(WAIT_BUZZER, buzzer_check_active, SET_BUZZER, Some buzzer_do_set_on),
      (SET_BUZZER, check_set_new_sound, SET_BUZZER, Some do_set_sound),
      (SET_BUZZER, buzzer_check_off, WAIT_BUZZER, Some buzzer_do_set_off)]"

definition fsm_buzzer_new :: "u32 \<Rightarrow> fsm_buzzer_t" where
  "fsm_buzzer_new bid =
     \<lparr>buzzer_state = WAIT_BUZZER, bz_distance_cm = - 1, new_sound = False,
      bz_status = False, bz_idle = False, buzzer_id = bid,
      sound = word_of_int PORT_BUZZER_MIN_VALUE\<rparr>"

definition fsm_buzzer_fire :: "fsm_buzzer_t \<Rightarrow> fsm_buzzer_t" where
  "fsm_buzzer_fire p_fsm =
     fsm_fire buzzer_state (\<lambda>st z. z\<lparr>buzzer_state := st\<rparr>) fsm_trans_buzzer p_fsm"

definition fsm_buzzer_set_distance :: "u32 \<Rightarrow> fsm_buzzer_t \<Rightarrow> fsm_buzzer_t" where
  "fsm_buzzer_set_distance distance_cm p_fsm =
     p_fsm\<lparr>bz_distance_cm := distance_cm, new_sound := True\<rparr>"

definition fsm_buzzer_set_status :: "bool \<Rightarrow> fsm_buzzer_t \<Rightarrow> fsm_buzzer_t" where
  "fsm_buzzer_set_status status p_fsm = p_fsm\<lparr>bz_status := status\<rparr>"

definition fsm_buzzer_check_activity :: "fsm_buzzer_t \<Rightarrow> bool" where
  "fsm_buzzer_check_activity p_fsm = (bz_status p_fsm \<and> \<not> bz_idle p_fsm)"

subsection \<open>Urbanite FSM (fsm_urbanite.h, fsm_urbanite.c)\<close>

datatype FSM_URBANITE =
  OFF | MEASURE_FRONT | MEASURE_REAR | SLEEP_WHILE_OFF | SLEEP_WHILE_ON_FRONT | SLEEP_WHILE_ON_REAR

text \<open>
  \<open>fsm_urbanite_t\<close> holds pointers to the button, the two ultrasounds, the two displays and
  the buzzer. main.c allocates the six structs one by one, so the pointers never alias and
  the record holds the structs themselves; the polling loop fires each of them through the
  same pointer, which here is a field update.
\<close>

record fsm_urbanite_t =
  urbanite_state :: FSM_URBANITE
  p_fsm_button :: fsm_button_t
  on_off_press_time_ms :: u32
  change_press_time_ms :: u32
  pause_display_time_ms :: u32
  is_paused :: bool
  is_rear :: bool
  p_fsm_ultrasound_front :: fsm_ultrasound_t
  p_fsm_display_front :: fsm_display_t
  p_fsm_ultrasound_rear :: fsm_ultrasound_t
  p_fsm_display_rear :: fsm_display_t
  p_fsm_buzzer :: fsm_buzzer_t

definition urbanite_check_on :: "fsm_urbanite_t \<Rightarrow> bool" where
  "urbanite_check_on p_fsm =
     (let duration = fsm_button_get_duration (p_fsm_button p_fsm)
      in duration > 0 \<and> duration \<ge> on_off_press_time_ms p_fsm)"

definition urbanite_check_off :: "fsm_urbanite_t \<Rightarrow> bool" where
  "urbanite_check_off p_fsm = urbanite_check_on p_fsm"

definition check_new_measure :: "fsm_urbanite_t \<Rightarrow> bool" where
  "check_new_measure p_fsm =
     (if is_rear p_fsm
      then fsm_ultrasound_get_new_measurement_ready (p_fsm_ultrasound_rear p_fsm)
      else fsm_ultrasound_get_new_measurement_ready (p_fsm_ultrasound_front p_fsm))"

definition check_pause :: "fsm_urbanite_t \<Rightarrow> bool" where
  "check_pause p_fsm =
     (let duration = fsm_button_get_duration (p_fsm_button p_fsm)
      in duration > 0 \<and> duration < change_press_time_ms p_fsm
         \<and> duration \<ge> pause_display_time_ms p_fsm)"

definition check_activity :: "fsm_urbanite_t \<Rightarrow> bool" where
  "check_activity p_fsm =
     (let button_status = fsm_button_check_activity (p_fsm_button p_fsm);
          ultrasound_front_status = fsm_ultrasound_check_activity (p_fsm_ultrasound_front p_fsm);
          display_front_status = fsm_display_check_activity (p_fsm_display_front p_fsm);
          ultrasound_rear_status = fsm_ultrasound_check_activity (p_fsm_ultrasound_rear p_fsm);
          display_rear_status = fsm_display_check_activity (p_fsm_display_rear p_fsm);
          buzzer_status = fsm_buzzer_check_activity (p_fsm_buzzer p_fsm)
      in button_status \<or> ultrasound_front_status \<or> display_front_status
         \<or> ultrasound_rear_status \<or> display_rear_status \<or> buzzer_status)"

text \<open>The body is \<open>/* return !check_activity(p_this); */ return false;\<close>.\<close>

definition check_no_activity :: "fsm_urbanite_t \<Rightarrow> bool" where
  "check_no_activity p_fsm = False"

definition check_activity_in_measure :: "fsm_urbanite_t \<Rightarrow> bool" where
  "check_activity_in_measure p_fsm = check_new_measure p_fsm"

definition check_front :: "fsm_urbanite_t \<Rightarrow> bool" where
  "check_front p_fsm =
     (let duration = fsm_button_get_duration (p_fsm_button p_fsm)
      in duration > 0 \<and> duration \<ge> change_press_time_ms p_fsm
         \<and> duration < on_off_press_time_ms p_fsm)"

definition check_rear :: "fsm_urbanite_t \<Rightarrow> bool" where
  "check_rear p_fsm = check_front p_fsm"

definition do_start_up_measure :: "fsm_urbanite_t \<Rightarrow> fsm_urbanite_t" where
  "do_start_up_measure p_fsm =
     p_fsm\<lparr>p_fsm_button := fsm_button_reset_duration (p_fsm_button p_fsm),
           p_fsm_ultrasound_front := fsm_ultrasound_start (p_fsm_ultrasound_front p_fsm),
           p_fsm_display_front := fsm_display_set_status False (p_fsm_display_front p_fsm),
           p_fsm_buzzer := fsm_buzzer_set_status False (p_fsm_buzzer p_fsm)\<rparr>"

text \<open>
  \<open>do_distance\<close>; \<open>WARNING_MIN_CM / 2\<close> is an \<open>int\<close> constant, converted to \<open>uint32_t\<close>
  for the comparison with the distance.
\<close>

definition do_distance :: "fsm_urbanite_t \<Rightarrow> fsm_urbanite_t" where
  "do_distance p_fsm =
     (if \<not> is_rear p_fsm then
        (let p1 = p_fsm\<lparr>p_fsm_display_rear := fsm_display_set_status False (p_fsm_display_rear p_fsm)\<rparr>;
             (distance, us) = fsm_ultrasound_get_distance (p_fsm_ultrasound_front p1);
             p2 = p1\<lparr>p_fsm_ultrasound_front := us\<rparr>
         in if is_paused p2 then
              (if distance < word_of_int (WARNING_MIN_CM sdiv 2) then
                 p2\<lparr>p_fsm_display_front :=
                       fsm_display_set_status True
                         (fsm_display_set_distance distance (p_fsm_display_front p2)),
                     p_fsm_buzzer :=
                       fsm_buzzer_set_status True
                         (fsm_buzzer_set_distance distance (p_fsm_buzzer p2))\<rparr>
               else
                 p2\<lparr>p_fsm_display_front := fsm_display_set_status False (p_fsm_display_front p2),
                     p_fsm_buzzer := fsm_buzzer_set_status False (p_fsm_buzzer p2)\<rparr>)
            else
              p2\<lparr>p_fsm_display_front :=
                    fsm_display_set_status True
                      (fsm_display_set_distance distance (p_fsm_display_front p2)),
                  p_fsm_buzzer :=
                    fsm_buzzer_set_status True
                      (fsm_buzzer_set_distance distance (p_fsm_buzzer p2))\<rparr>)
      else
        (let p1 = p_fsm\<lparr>p_fsm_display_front := fsm_display_set_status False (p_fsm_display_front p_fsm)\<rparr>;
             (distance, us) = fsm_ultrasound_get_distance (p_fsm_ultrasound_rear p1);
             p2 = p1\<lparr>p_fsm_ultrasound_rear := us\<rparr>
         in if is_paused p2 then
              (if distance < word_of_int (WARNING_MIN_CM sdiv 2) then
                 p2\<lparr>p_fsm_display_rear :=
                       fsm_display_set_status True
                         (fsm_display_set_distance distance (p_fsm_display_rear p2)),
                     p_fsm_buzzer :=
                       fsm_buzzer_set_status True
                         (fsm_buzzer_set_distance distance (p_fsm_buzzer p2))\<rparr>
               else
                 p2\<lparr>p_fsm_display_rear := fsm_display_set_status False (p_fsm_display_rear p2),
                     p_fsm_buzzer := fsm_buzzer_set_status False (p_fsm_buzzer p2)\<rparr>)
            else
              p2\<lparr>p_fsm_display_rear :=
                    fsm_display_set_status True
                      (fsm_display_set_distance distance (p_fsm_display_rear p2)),
                  p_fsm_buzzer :=
                    fsm_buzzer_set_status True
                      (fsm_buzzer_set_distance distance (p_fsm_buzzer p2))\<rparr>))"

definition do_pause :: "fsm_urbanite_t \<Rightarrow> fsm_urbanite_t" where
  "do_pause p_fsm =
     (let p1 = p_fsm\<lparr>p_fsm_button := fsm_button_reset_duration (p_fsm_button p_fsm)\<rparr>;
          p2 = p1\<lparr>is_paused := \<not> is_paused p1\<rparr>;
          p3 = (if is_rear p2
                then p2\<lparr>p_fsm_display_rear :=
                          fsm_display_set_status (is_paused p2) (p_fsm_display_rear p2)\<rparr>
                else p2\<lparr>p_fsm_display_front :=
                          fsm_display_set_status (is_paused p2) (p_fsm_display_front p2)\<rparr>)
      in p3\<lparr>p_fsm_buzzer := fsm_buzzer_set_status (is_paused p3) (p_fsm_buzzer p3)\<rparr>)"

definition do_stop_urbanite :: "fsm_urbanite_t \<Rightarrow> fsm_urbanite_t" where
  "do_stop_urbanite p_fsm =
     (let p1 = p_fsm\<lparr>p_fsm_button := fsm_button_reset_duration (p_fsm_button p_fsm),
                     p_fsm_ultrasound_front := fsm_ultrasound_stop (p_fsm_ultrasound_front p_fsm),
                     p_fsm_display_front := fsm_display_set_status False (p_fsm_display_front p_fsm),
                     p_fsm_ultrasound_rear := fsm_ultrasound_stop (p_fsm_ultrasound_rear p_fsm),
                     p_fsm_display_rear := fsm_display_set_status False (p_fsm_display_rear p_fsm),
                     p_fsm_buzzer := fsm_buzzer_set_status False (p_fsm_buzzer p_fsm)\<rparr>
      in if is_paused p1 then p1\<lparr>is_paused := False\<rparr> else p1)"

text \<open>The four sleep actions call \<open>port_system_sleep()\<close> and change no struct.\<close>

definition do_sleep_while_off :: "fsm_urbanite_t \<Rightarrow> fsm_urbanite_t" where
  "do_sleep_while_off p_fsm = p_fsm"

definition do_sleep_while_on :: "fsm_urbanite_t \<Rightarrow> fsm_urbanite_t" where
  "do_sleep_while_on p_fsm = p_fsm"

definition do_sleep_while_measure :: "fsm_urbanite_t \<Rightarrow> fsm_urbanite_t" where
  "do_sleep_while_measure p_fsm = p_fsm"

definition do_sleep_off :: "fsm_urbanite_t \<Rightarrow> fsm_urbanite_t" where
  "do_sleep_off p_fsm = p_fsm"

definition do_change_rear :: "fsm_urbanite_t \<Rightarrow> fsm_urbanite_t" where
  "do_change_rear p_fsm =
     p_fsm\<lparr>p_fsm_button := fsm_button_reset_duration (p_fsm_button p_fsm),
           p_fsm_ultrasound_front := fsm_ultrasound_stop (p_fsm_ultrasound_front p_fsm),
           p_fsm_display_front := fsm_display_set_status False (p_fsm_display_front p_fsm),
           is_rear := True,
           p_fsm_ultrasound_rear := fsm_ultrasound_start (p_fsm_ultrasound_rear p_fsm),
           p_fsm_display_rear := fsm_display_set_status False (p_fsm_display_rear p_fsm)\<rparr>"

definition do_change_front :: "fsm_urbanite_t \<Rightarrow> fsm_urbanite_t" where
  "do_change_front p_fsm =
     p_fsm\<lparr>p_fsm_button := fsm_button_reset_duration (p_fsm_button p_fsm),
           p_fsm_ultrasound_rear := fsm_ultrasound_stop (p_fsm_ultrasound_rear p_fsm),
           p_fsm_display_rear := fsm_display_set_status False (p_fsm_display_rear p_fsm),
           is_rear := False,
           p_fsm_ultrasound_front := fsm_ultrasound_start (p_fsm_ultrasound_front p_fsm),
           p_fsm_display_front := fsm_display_set_status False (p_fsm_display_front p_fsm)\<rparr>"

definition fsm_trans_urbanite :: "(FSM_URBANITE, fsm_urbanite_t) fsm_trans_t list" where
  "fsm_trans_urbanite =
     [(OFF, urbanite_check_on, MEASURE_FRONT, Some do_start_up_measure),
      (OFF, check_no_activity, SLEEP_WHILE_OFF, Some do_sleep_off),

      (MEASURE_FRONT, urbanite_check_off, OFF, Some do_stop_urbanite),
      (MEASURE_FRONT, check_pause, MEASURE_FRONT, Some do_pause),
      (MEASURE_FRONT, check_new_measure, MEASURE_FRONT, Some do_distance),
      (MEASURE_FRONT, check_rear, MEASURE_REAR, Some do_change_rear),
      (MEASURE_FRONT, check_no_activity, SLEEP_WHILE_ON_FRONT, Some do_sleep_while_measure),

      (MEASURE_REAR, urbanite_check_off, OFF, Some do_stop_urbanite),
      (MEASURE_REAR, check_pause, MEASURE_REAR, Some do_pause),
      (MEASURE_REAR, check_new_measure, MEASURE_REAR, Some do_distance),
      (MEASURE_REAR, check_front, MEASURE_FRONT, Some do_change_front),
      (MEASURE_REAR, check_no_activity, SLEEP_WHILE_ON_REAR, Some do_sleep_while_measure),

      (SLEEP_WHILE_ON_FRONT, check_activity_in_measure, MEASURE_FRONT, None),
      (SLEEP_WHILE_ON_FRONT, check_no_activity, SLEEP_WHILE_ON_FRONT, Some do_sleep_while_on),

      (SLEEP_WHILE_ON_REAR, check_activity_in_measure, MEASURE_REAR, None),
      (SLEEP_WHILE_ON_REAR, check_no_activity, SLEEP_WHILE_ON_REAR, Some do_sleep_while_on),

      (SLEEP_WHILE_OFF, check_activity, OFF, None),
      (SLEEP_WHILE_OFF, check_no_activity, SLEEP_WHILE_OFF, Some do_sleep_while_off)]"

definition fsm_urbanite_new ::
  "fsm_button_t \<Rightarrow> u32 \<Rightarrow> u32 \<Rightarrow> u32 \<Rightarrow> fsm_ultrasound_t \<Rightarrow> fsm_display_t
     \<Rightarrow> fsm_ultrasound_t \<Rightarrow> fsm_display_t \<Rightarrow> fsm_buzzer_t \<Rightarrow> fsm_urbanite_t" where
  "fsm_urbanite_new button on_off_ms change_ms pause_ms us_front disp_front us_rear disp_rear buzzer =
     \<lparr>urbanite_state = OFF, p_fsm_button = button, on_off_press_time_ms = on_off_ms,
      change_press_time_ms = change_ms, pause_display_time_ms = pause_ms,
      is_paused = False, is_rear = False,
      p_fsm_ultrasound_front = us_front, p_fsm_display_front = disp_front,
      p_fsm_ultrasound_rear = us_rear, p_fsm_display_rear = disp_rear,
      p_fsm_buzzer = buzzer\<rparr>"

definition fsm_urbanite_fire :: "fsm_urbanite_t \<Rightarrow> fsm_urbanite_t" where
  "fsm_urbanite_fire p_fsm =
     fsm_fire urbanite_state (\<lambda>st u. u\<lparr>urbanite_state := st\<rparr>) fsm_trans_urbanite p_fsm"

text \<open>The pair that the selector \<open>is_rear\<close> designates.\<close>

definition live_ultrasound :: "fsm_urbanite_t \<Rightarrow> fsm_ultrasound_t" where
  "live_ultrasound p_fsm =
     (if is_rear p_fsm then p_fsm_ultrasound_rear p_fsm else p_fsm_ultrasound_front p_fsm)"

definition live_display :: "fsm_urbanite_t \<Rightarrow> fsm_display_t" where
  "live_display p_fsm =
     (if is_rear p_fsm then p_fsm_display_rear p_fsm else p_fsm_display_front p_fsm)"

subsection \<open>The polling loop (main.c)\<close>

text \<open>
  One pass of the body of \<open>while (1)\<close>: the seven fires in the order of main.c, with the time
  and the button flag that the pass reads; \<open>main_loop_peripherals\<close> is the pass up to the
  fire of the orchestrator. \<open>main_loop\<close> runs one pass per element of a list;
  between two passes the interrupt routines may have moved the time and the flag. The
  sensor ids are declared in port_ultrasound.h, which is not among the sources; they are
  parameters of \<open>main_init\<close>, the part of \<open>main\<close> before the loop.
\<close>

definition main_loop_peripherals :: "nat \<Rightarrow> u32 \<Rightarrow> u32 \<Rightarrow> bool \<Rightarrow> fsm_urbanite_t \<Rightarrow> fsm_urbanite_t" where
  "main_loop_peripherals NUM SPEED millis pressed p_fsm =
     (let p1 = p_fsm\<lparr>p_fsm_button := fsm_button_fire millis pressed (p_fsm_button p_fsm)\<rparr>;
          p2 = p1\<lparr>p_fsm_ultrasound_front := fsm_ultrasound_fire NUM SPEED (p_fsm_ultrasound_front p1)\<rparr>;
          p3 = p2\<lparr>p_fsm_display_front := fsm_display_fire (p_fsm_display_front p2)\<rparr>;
          p4 = p3\<lparr>p_fsm_ultrasound_rear := fsm_ultrasound_fire NUM SPEED (p_fsm_ultrasound_rear p3)\<rparr>;
          p5 = p4\<lparr>p_fsm_display_rear := fsm_display_fire (p_fsm_display_rear p4)\<rparr>
      in p5\<lparr>p_fsm_buzzer := fsm_buzzer_fire (p_fsm_buzzer p5)\<rparr>)"

definition main_loop_body :: "nat \<Rightarrow> u32 \<Rightarrow> u32 \<Rightarrow> bool \<Rightarrow> fsm_urbanite_t \<Rightarrow> fsm_urbanite_t" where
  "main_loop_body NUM SPEED millis pressed p_fsm =
     fsm_urbanite_fire (main_loop_peripherals NUM SPEED millis pressed p_fsm)"

fun main_loop :: "nat \<Rightarrow> u32 \<Rightarrow> fsm_urbanite_t \<Rightarrow> (u32 \<times> bool) list \<Rightarrow> fsm_urbanite_t" where
  "main_loop NUM SPEED p_fsm [] = p_fsm"
| "main_loop NUM SPEED p_fsm ((millis, pressed) # evs) =
     main_loop NUM SPEED (main_loop_body NUM SPEED millis pressed p_fsm) evs"

definition main_init :: "nat \<Rightarrow> u32 \<Rightarrow> u32 \<Rightarrow> fsm_urbanite_t" where
  "main_init NUM front_id rear_id =
     fsm_urbanite_new (fsm_button_new 0 100 0) 3000 1000 500
       (fsm_ultrasound_new NUM front_id) (fsm_display_new 1)
       (fsm_ultrasound_new NUM rear_id) (fsm_display_new 0) (fsm_buzzer_new 0)"

text \<open>
  A press of the button held from \<open>t\<close> for \<open>len\<close> milliseconds, as four passes of the loop
  see it: the press, the end of its debounce window, the release, the end of the second
  window.
\<close>

definition press :: "u32 \<Rightarrow> u32 \<Rightarrow> (u32 \<times> bool) list" where
  "press t len = [(t, True), (t + 101, True), (t + len, False), (t + len + 101, False)]"

text \<open>
  The scenarios below run the system of main.c with 5 and 343 for the two macros of the
  missing header: an odd batch size, as the comment in \<open>do_set_distance\<close> expects, and the
  speed of sound in m/s. \<open>at_urbanite_fire\<close> is that system after the passes \<open>evs\<close>, inside
  one more pass at the point where the orchestrator is about to be fired.
\<close>

definition at_urbanite_fire :: "(u32 \<times> bool) list \<Rightarrow> u32 \<Rightarrow> bool \<Rightarrow> fsm_urbanite_t" where
  "at_urbanite_fire evs millis pressed =
     main_loop_peripherals 5 343 millis pressed (main_loop 5 343 (main_init 5 1 0) evs)"

text \<open>
  Switched on, changed to the rear pair, switched off, and a fourth press of 3200 ms has
  just been measured by the button FSM.
\<close>

definition second_cold_start :: fsm_urbanite_t where
  "second_cold_start =
     at_urbanite_fire
       (press 1000 3200 @ press 5000 1300 @ press 7000 3200 @ take 2 (press 11000 3200)) 14200 False"

text \<open>Switched on, and a second press of \<open>len\<close> milliseconds has just been measured.\<close>

definition measuring_pressed :: "u32 \<Rightarrow> fsm_urbanite_t" where
  "measuring_pressed len =
     at_urbanite_fire (press 1000 3200 @ take 2 (press 5000 len)) (5000 + len) False"

text \<open>
  Switched on and paused by a press of 600 ms; then the front sensor, in the pass its FSM is
  fired, reports the fifth echo of a batch whose echoes all last \<open>ticks\<close> microseconds.
\<close>

definition paused_batch :: "u32 \<Rightarrow> fsm_urbanite_t" where
  "paused_batch ticks =
     (let s = main_loop 5 343 (main_init 5 1 0) (press 1000 3200 @ press 5000 600)
      in s\<lparr>p_fsm_ultrasound_front :=
             store_samples 5 343 (p_fsm_ultrasound_front s) (replicate 5 (0, 100, 100 + ticks))\<rparr>)"

text \<open>
  Switched on; a second press of 3200 ms is measured in the very pass in which the front
  sensor completes a batch (five echoes of 600 microseconds), so the orchestrator switches
  off before it has read the distance; a third press of 3200 ms switches on again, and the
  scenario ends inside the following pass, where the orchestrator is about to be fired.
\<close>

definition stale_flag_restart :: fsm_urbanite_t where
  "stale_flag_restart =
     (let s1 = at_urbanite_fire (press 1000 3200 @ take 2 (press 5000 3200)) 8200 False;
          s2 = s1\<lparr>p_fsm_ultrasound_front :=
                   store_samples 5 343 (p_fsm_ultrasound_front s1) (replicate 5 (0, 100, 700))\<rparr>;
          s3 = fsm_urbanite_fire s2;
          s4 = main_loop 5 343 s3 (drop 3 (press 5000 3200) @ take 3 (press 9000 3200))
      in main_loop_peripherals 5 343 12301 False s4)"

text \<open>
  A batch as the front sensor of main.c may see it after a start: five echoes of 600, 1200,
  300, 2500 (the echo timer overflows once meanwhile) and 900 microseconds.
\<close>

definition five_echoes :: "(u32 \<times> u32 \<times> u32) list" where
  "five_echoes = [(0, 100, 700), (0, 100, 1300), (0, 100, 400), (1, 65000, 1964), (0, 100, 1000)]"

section \<open>Properties\<close>

subsection \<open>Unfolding sets\<close>

lemmas button_defs =
  fsm_button_fire_def fsm_trans_button_def check_button_pressed_def check_button_released_def
  check_timeout_def do_store_tick_pressed_def do_set_duration_def fsm_button_new_def
  fsm_button_get_duration_def fsm_button_reset_duration_def fsm_button_check_activity_def

lemmas tier_defs =
  HIGH_DANGER_MIN_CM_def DANGER_MIN_CM_def WARNING_MIN_CM_def NO_PROBLEM_MIN_CM_def
  INFO_MIN_CM_def OK_MIN_CM_def OK_MAX_CM_def

lemmas color_defs =
  COLOR_RED_def COLOR_YELLOW_def COLOR_GREEN_def COLOR_TURQUOISE_def COLOR_BLUE_def COLOR_OFF_def
  PORT_DISPLAY_RGB_MAX_VALUE_def signed_divide_int_def

subsection \<open>Button: a press shorter than the debounce time\<close>

lemma button_fire_pressed_wait:
  "button_state p = BUTTON_PRESSED_WAIT \<Longrightarrow>
   fsm_button_fire millis pressed p =
     (if millis > next_timeout p then p\<lparr>button_state := BUTTON_PRESSED\<rparr> else p)"
  by (simp add: button_defs fsm_fire_def)

text \<open>
  C4. The claim: a press whose release comes before the debounce time has passed takes the
  button back to \<open>BUTTON_RELEASED\<close> without ever entering \<open>BUTTON_PRESSED\<close>. The code:
  the only row that leaves \<open>BUTTON_PRESSED_WAIT\<close> is guarded by \<open>check_timeout\<close> alone and
  leads to \<open>BUTTON_PRESSED\<close>; the flag is not read there. So from \<open>BUTTON_PRESSED_WAIT\<close> a
  fire either stays or enters \<open>BUTTON_PRESSED\<close>, whether the button is still held or not.
\<close>

theorem pressed_wait_leads_to_pressed:
  assumes "button_state p = BUTTON_PRESSED_WAIT"
  shows "fsm_button_fire millis pressed p =
           (if millis > next_timeout p then p\<lparr>button_state := BUTTON_PRESSED\<rparr> else p)"
  using assms by (rule button_fire_pressed_wait)

text \<open>
  With a debounce time of 100 ms, a press at 1000 ms released 10 ms later (the flag is
  down again at the fire of 1010 ms) enters \<open>BUTTON_PRESSED\<close> at the first fire after
  1100 ms, and the fires that follow report a press of 102 ms.
\<close>

theorem pressed_wait_leads_to_pressed_witness:
  "button_state (button_run (fsm_button_new 0 100 0) [(1000, True), (1010, False)]) = BUTTON_PRESSED_WAIT
   \<and> button_state (fsm_button_fire 1101 False
        (button_run (fsm_button_new 0 100 0) [(1000, True), (1010, False)])) = BUTTON_PRESSED
   \<and> button_trace (fsm_button_new 0 100 0)
        [(1000, True), (1010, False), (1101, False), (1102, False), (1203, False)]
      = [BUTTON_PRESSED_WAIT, BUTTON_PRESSED_WAIT, BUTTON_PRESSED, BUTTON_RELEASED_WAIT, BUTTON_RELEASED]
   \<and> duration (button_run (fsm_button_new 0 100 0)
        [(1000, True), (1010, False), (1101, False), (1102, False), (1203, False)]) = 102"
proof -
  have h: "button_state (button_run (fsm_button_new 0 100 0) [(1000, True), (1010, False)]) = BUTTON_PRESSED_WAIT"
    by (simp add: button_defs fsm_fire_def)
  have t: "next_timeout (button_run (fsm_button_new 0 100 0) [(1000, True), (1010, False)]) = 1100"
    by (simp add: button_defs fsm_fire_def)
  have p: "button_state (fsm_button_fire 1101 False
        (button_run (fsm_button_new 0 100 0) [(1000, True), (1010, False)])) = BUTTON_PRESSED"
    using pressed_wait_leads_to_pressed [OF h, of 1101 False] t by simp
  have tr: "button_trace (fsm_button_new 0 100 0)
        [(1000, True), (1010, False), (1101, False), (1102, False), (1203, False)]
      = [BUTTON_PRESSED_WAIT, BUTTON_PRESSED_WAIT, BUTTON_PRESSED, BUTTON_RELEASED_WAIT, BUTTON_RELEASED]"
    by (simp add: button_defs fsm_fire_def)
  have du: "duration (button_run (fsm_button_new 0 100 0)
        [(1000, True), (1010, False), (1101, False), (1102, False), (1203, False)]) = 102"
    by (simp add: button_defs fsm_fire_def)
  from h p tr du show ?thesis by simp
qed

subsection \<open>Ultrasound: the batch median\<close>

text \<open>
  On values below \<open>2^31\<close> the comparison function is the order of \<open>uint32_t\<close>, so
  \<open>qsort\<close> sorts; every stored sample is such a value.
\<close>

lemma compare_u32_le:
  assumes "x < 2 ^ 31" and "y < 2 ^ 31"
  shows "(compare_u32 x y \<le> 0) = (x \<le> y)"
proof -
  have ux: "uint x < 2 ^ 31" using assms(1) by (simp add: word_less_def)
  have uy: "uint y < 2 ^ 31" using assms(2) by (simp add: word_less_def)
  have px: "- (2 ^ 31) \<le> uint x" and py: "- (2 ^ 31) \<le> uint y"
    by (simp_all add: order_trans [of _ 0])
  have sx: "sint x = uint x"
    using signed_take_bit_int_eq_self [OF px ux] by (simp add: sint_uint)
  have sy: "sint y = uint y"
    using signed_take_bit_int_eq_self [OF py uy] by (simp add: sint_uint)
  have nx: "0 \<le> uint x" and ny: "0 \<le> uint y" by simp_all
  have lo: "- (2 ^ 31) \<le> uint x - uint y" using uy nx by linarith
  have hi: "uint x - uint y < 2 ^ 31" using ux ny by linarith
  have "sint (x - y) = uint x - uint y"
    using signed_take_bit_int_eq_self [OF lo hi] by (simp add: sint_word_diff sx sy)
  then show ?thesis by (simp add: compare_u32_def word_le_def)
qed

lemma qsort_insert_insort:
  assumes "x < 2 ^ 31" and "\<forall>y \<in> set ys. y < 2 ^ 31"
  shows "qsort_insert compare_u32 x ys = insort x ys"
  using assms by (induction ys) (simp_all add: compare_u32_le)

lemma qsort_compare_u32:
  assumes "\<forall>y \<in> set xs. y < (2 ^ 31 :: u32)"
  shows "qsort compare_u32 xs = sort xs"
  using assms
proof (induction xs)
  case Nil
  show ?case by (simp add: qsort_def)
next
  case (Cons x xs)
  then have ih: "qsort compare_u32 xs = sort xs" by simp
  have "\<forall>y \<in> set (sort xs). y < 2 ^ 31" using Cons.prems by simp
  with Cons.prems have "qsort_insert compare_u32 x (sort xs) = insort x (sort xs)"
    by (simp add: qsort_insert_insort)
  with ih show ?case by (simp add: qsort_def)
qed

lemma echo_distance_bound: "echo_distance SPEED h < 2 ^ 31"
proof -
  have "unat ((echo_end_tick h + echo_overflows h * 65536 - echo_init_tick h) * SPEED div 20000)
          \<le> (2 ^ 32 - 1) div 20000"
    (is "unat (?t div 20000) \<le> _")
  proof -
    have "unat ?t < 2 ^ 32" using unsigned_less [of ?t] by simp
    then have "unat ?t div 20000 \<le> (2 ^ 32 - 1) div 20000"
      by (intro div_le_mono) simp
    then show ?thesis by (simp add: unat_div)
  qed
  then have "unat (echo_distance SPEED h) < 2 ^ 31"
    by (simp add: echo_distance_def)
  then show ?thesis by (simp add: word_less_nat_alt)
qed

lemma sample_of_bound: "sample_of SPEED e < 2 ^ 31"
proof -
  obtain ovf ini en where e: "e = (ovf, ini, en)" by (cases e)
  have "sample_of SPEED e = echo_distance SPEED (set_echo e h)" for h
    by (simp add: e sample_of_def echo_distance_def set_echo_def)
  then show ?thesis by (metis echo_distance_bound)
qed

lemma echo_distance_set_echo: "echo_distance SPEED (set_echo e h) = sample_of SPEED e"
  by (cases e) (simp add: sample_of_def echo_distance_def set_echo_def)

text \<open>One stored sample, away from the last slot and at the last slot.\<close>

lemma do_set_distance_inside:
  assumes "ultrasound_wf NUM u" and "unat (distance_idx u) \<noteq> NUM - 1"
  shows "do_set_distance NUM SPEED u =
           u\<lparr>distance_arr := (distance_arr u)[unat (distance_idx u) := echo_distance SPEED (hw u)],
             distance_idx := distance_idx u + 1,
             hw := port_ultrasound_reset_echo_ticks (hw u)\<rparr>"
    and "unat (distance_idx u + 1) = unat (distance_idx u) + 1"
proof -
  from assms have lt: "unat (distance_idx u) + 1 < NUM" and n: "NUM < 2 ^ 32"
    by (auto simp add: ultrasound_wf_def)
  then have "unat (distance_idx u) + 1 < 2 ^ 32" by simp
  then show s: "unat (distance_idx u + 1) = unat (distance_idx u) + 1"
    by (simp add: unat_word_ariths)
  from lt s show "do_set_distance NUM SPEED u =
           u\<lparr>distance_arr := (distance_arr u)[unat (distance_idx u) := echo_distance SPEED (hw u)],
             distance_idx := distance_idx u + 1,
             hw := port_ultrasound_reset_echo_ticks (hw u)\<rparr>"
    by (simp add: do_set_distance_def Let_def)
qed

lemma do_set_distance_last:
  assumes "ultrasound_wf NUM u" and "unat (distance_idx u) = NUM - 1"
  shows "do_set_distance NUM SPEED u =
           u\<lparr>distance_arr := qsort compare_u32 ((distance_arr u)[NUM - 1 := echo_distance SPEED (hw u)]),
             us_distance_cm :=
               qsort compare_u32 ((distance_arr u)[NUM - 1 := echo_distance SPEED (hw u)]) ! (NUM div 2),
             new_measurement := True,
             distance_idx := 0,
             hw := port_ultrasound_reset_echo_ticks (hw u)\<rparr>"
proof -
  from assms have n: "0 < NUM" "NUM < 2 ^ 32" by (auto simp add: ultrasound_wf_def)
  with assms(2) have "unat (distance_idx u) + 1 = NUM" by simp
  with n have "unat (distance_idx u + 1) = NUM"
    by (simp add: unat_word_ariths)
  with assms(2) show ?thesis
    by (simp add: do_set_distance_def Let_def)
qed

lemma store_samples_snoc:
  "store_samples NUM SPEED u (es @ [e]) =
     do_set_distance NUM SPEED
       ((store_samples NUM SPEED u es)\<lparr>hw := set_echo e (hw (store_samples NUM SPEED u es))\<rparr>)"
  by (induction es arbitrary: u) simp_all

lemma ultrasound_wf_hw: "ultrasound_wf NUM (u\<lparr>hw := h\<rparr>) = ultrasound_wf NUM u"
  by (simp add: ultrasound_wf_def)

text \<open>Samples stored short of the last slot fill the array in order and publish nothing.\<close>

lemma store_samples_inside:
  assumes "ultrasound_wf NUM u" and "unat (distance_idx u) + length es < NUM"
  shows "ultrasound_wf NUM (store_samples NUM SPEED u es)
       \<and> unat (distance_idx (store_samples NUM SPEED u es)) = unat (distance_idx u) + length es
       \<and> distance_arr (store_samples NUM SPEED u es)
           = take (unat (distance_idx u)) (distance_arr u) @ map (sample_of SPEED) es
             @ drop (unat (distance_idx u) + length es) (distance_arr u)
       \<and> us_distance_cm (store_samples NUM SPEED u es) = us_distance_cm u
       \<and> new_measurement (store_samples NUM SPEED u es) = new_measurement u"
  using assms
proof (induction es arbitrary: u)
  case Nil
  then show ?case by simp
next
  case (Cons e es)
  let ?v = "u\<lparr>hw := set_echo e (hw u)\<rparr>"
  let ?i = "unat (distance_idx u)"
  have wfv: "ultrasound_wf NUM ?v" using Cons.prems(1) by (simp add: ultrasound_wf_hw)
  have ne: "unat (distance_idx ?v) \<noteq> NUM - 1" using Cons.prems(2) by simp
  have len: "length (distance_arr u) = NUM" and i: "?i < NUM"
    using Cons.prems(1) by (simp_all add: ultrasound_wf_def)
  note step1 = do_set_distance_inside(1) [OF wfv ne, of SPEED]
  note step2 = do_set_distance_inside(2) [OF wfv ne]
  let ?w = "do_set_distance NUM SPEED ?v"
  have w: "?w = u\<lparr>distance_arr := (distance_arr u)[?i := sample_of SPEED e],
                   distance_idx := distance_idx u + 1,
                   hw := port_ultrasound_reset_echo_ticks (set_echo e (hw u))\<rparr>"
    using step1 by (simp add: echo_distance_set_echo)
  have iw: "unat (distance_idx ?w) = ?i + 1"
    using step2 by (simp add: w)
  have wfw: "ultrasound_wf NUM ?w"
    using Cons.prems iw by (simp add: w ultrasound_wf_def)
  have rest: "unat (distance_idx ?w) + length es < NUM"
    using Cons.prems(2) iw by simp
  note ih = Cons.IH [OF wfw rest]
  have arr: "take (?i + 1) ((distance_arr u)[?i := sample_of SPEED e]) @ map (sample_of SPEED) es
               @ drop (?i + 1 + length es) ((distance_arr u)[?i := sample_of SPEED e])
             = take ?i (distance_arr u) @ map (sample_of SPEED) (e # es)
               @ drop (?i + length (e # es)) (distance_arr u)"
    using i len by (simp add: upd_conv_take_nth_drop min_def add.commute)
  from ih arr show ?case
    by (simp add: iw) (simp add: w)
qed

lemma store_samples_batch:
  assumes wf: "ultrasound_wf NUM u" and zero: "distance_idx u = 0" and len: "length es = NUM"
  shows "us_distance_cm (store_samples NUM SPEED u es) = sort (map (sample_of SPEED) es) ! (NUM div 2)
       \<and> new_measurement (store_samples NUM SPEED u es)
       \<and> distance_idx (store_samples NUM SPEED u es) = 0
       \<and> distance_arr (store_samples NUM SPEED u es) = sort (map (sample_of SPEED) es)"
proof -
  from wf have n: "0 < NUM" and la: "length (distance_arr u) = NUM"
    by (simp_all add: ultrasound_wf_def)
  from n len have es: "es = butlast es @ [last es]" by (cases es rule: rev_cases) simp_all
  let ?p = "store_samples NUM SPEED u (butlast es)"
  have short: "unat (distance_idx u) + length (butlast es) < NUM"
    using n len zero by simp
  note ins = store_samples_inside [OF wf short, of SPEED]
  let ?v = "?p\<lparr>hw := set_echo (last es) (hw ?p)\<rparr>"
  have wfv: "ultrasound_wf NUM ?v" using ins by (simp add: ultrasound_wf_hw)
  have iv: "unat (distance_idx ?v) = NUM - 1" using ins zero len by simp
  have av: "distance_arr ?v = map (sample_of SPEED) (butlast es) @ drop (NUM - 1) (distance_arr u)"
    using ins zero len by simp
  have "length (drop (NUM - 1) (distance_arr u)) = 1" using la n by simp
  then obtain a where one: "drop (NUM - 1) (distance_arr u) = [a]"
    by (metis One_nat_def length_0_conv length_Suc_conv)
  have "(distance_arr ?v)[NUM - 1 := sample_of SPEED (last es)]
          = map (sample_of SPEED) (butlast es) @ [sample_of SPEED (last es)]"
    using len by (simp add: av one [unfolded One_nat_def] list_update_append)
  also have "\<dots> = map (sample_of SPEED) es"
    using es by (metis list.simps(8) list.simps(9) map_append)
  finally have win: "(distance_arr ?v)[NUM - 1 := echo_distance SPEED (hw ?v)] = map (sample_of SPEED) es"
    by (simp add: echo_distance_set_echo)
  have "\<forall>y \<in> set (map (sample_of SPEED) es). y < 2 ^ 31"
    using sample_of_bound [of SPEED] by auto
  then have srt: "qsort compare_u32 (map (sample_of SPEED) es) = sort (map (sample_of SPEED) es)"
    by (rule qsort_compare_u32)
  have "store_samples NUM SPEED u es = do_set_distance NUM SPEED ?v"
    using store_samples_snoc [of NUM SPEED u "butlast es" "last es"] es by simp
  then show ?thesis
    using do_set_distance_last [OF wfv iv, of SPEED] win srt by simp
qed

lemma length_qsort_insert: "length (qsort_insert cmp x xs) = Suc (length xs)"
  by (induction xs) simp_all

lemma length_qsort: "length (qsort cmp xs) = length xs"
  by (induction xs) (simp_all add: qsort_def length_qsort_insert)

lemma ultrasound_wf_new: "0 < NUM \<Longrightarrow> NUM < 2 ^ 32 \<Longrightarrow> ultrasound_wf NUM (fsm_ultrasound_new NUM uid)"
  by (simp add: ultrasound_wf_def fsm_ultrasound_new_def)

lemma ultrasound_wf_start: "ultrasound_wf NUM u \<Longrightarrow> ultrasound_wf NUM (fsm_ultrasound_start u)"
  by (simp add: ultrasound_wf_def fsm_ultrasound_start_def)

lemma ultrasound_wf_do_set_distance:
  assumes "ultrasound_wf NUM u"
  shows "ultrasound_wf NUM (do_set_distance NUM SPEED u)"
proof (cases "unat (distance_idx u) = NUM - 1")
  case True
  from assms show ?thesis
    by (simp add: do_set_distance_last [OF assms True] ultrasound_wf_def length_qsort)
next
  case False
  from assms have "unat (distance_idx u) + 1 < NUM" using False by (auto simp add: ultrasound_wf_def)
  with assms show ?thesis
    by (simp add: do_set_distance_inside [OF assms False] ultrasound_wf_def)
qed

lemma fsm_ultrasound_fire_unfold:
  "fsm_ultrasound_fire NUM SPEED u =
     (case fsm_select (fsm_trans_ultrasound NUM SPEED) (ultrasound_state u) u of
        None \<Rightarrow> u
      | Some (orig, guard, dest, out) \<Rightarrow>
          (case out of None \<Rightarrow> u | Some action \<Rightarrow> action u)\<lparr>ultrasound_state := dest\<rparr>)"
  by (simp add: fsm_ultrasound_fire_def fsm_fire_def)

lemma ultrasound_fire_cases:
  "fsm_ultrasound_fire NUM SPEED u =
     (case ultrasound_state u of
        WAIT_START \<Rightarrow>
          if ultrasound_check_on u then (do_start_measurement u)\<lparr>ultrasound_state := TRIGGER_START\<rparr> else u
      | TRIGGER_START \<Rightarrow>
          if check_trigger_end u then (do_stop_trigger u)\<lparr>ultrasound_state := WAIT_ECHO_START\<rparr> else u
      | WAIT_ECHO_START \<Rightarrow>
          if check_echo_init u then u\<lparr>ultrasound_state := WAIT_ECHO_END\<rparr> else u
      | WAIT_ECHO_END \<Rightarrow>
          if check_echo_received u then (do_set_distance NUM SPEED u)\<lparr>ultrasound_state := SET_DISTANCE\<rparr> else u
      | SET_DISTANCE \<Rightarrow>
          if check_new_measurement u then (do_start_new_measurement u)\<lparr>ultrasound_state := TRIGGER_START\<rparr>
          else if ultrasound_check_off u then (do_stop_measurement u)\<lparr>ultrasound_state := WAIT_START\<rparr>
          else u)"
  by (cases "ultrasound_state u") (simp_all add: fsm_ultrasound_fire_unfold fsm_trans_ultrasound_def)

lemma ultrasound_fire_keeps_distance:
  assumes "ultrasound_wf NUM u"
      and "\<not> (ultrasound_state u = WAIT_ECHO_END \<and> check_echo_received u \<and> unat (distance_idx u) = NUM - 1)"
  shows "us_distance_cm (fsm_ultrasound_fire NUM SPEED u) = us_distance_cm u
       \<and> new_measurement (fsm_ultrasound_fire NUM SPEED u) = new_measurement u"
proof (cases "ultrasound_state u = WAIT_ECHO_END \<and> check_echo_received u")
  case True
  with assms(2) have ne: "unat (distance_idx u) \<noteq> NUM - 1" by simp
  from True show ?thesis
    by (simp add: ultrasound_fire_cases do_set_distance_inside(1) [OF assms(1) ne])
next
  case False
  then show ?thesis
    by (cases "ultrasound_state u")
       (simp_all add: ultrasound_fire_cases do_start_measurement_def do_stop_trigger_def
          do_start_new_measurement_def do_stop_measurement_def)
qed

text \<open>
  C6. A fire of the ultrasound FSM stores a sample in the row \<open>WAIT_ECHO_END \<rightarrow> SET_DISTANCE\<close>
  only. Every fire that is not such a fire at the last slot leaves \<open>distance_cm\<close> and
  \<open>new_measurement\<close> as they were; a sample stored short of the last slot just advances the
  index. At the last slot the array is sorted, its element \<open>NUM / 2\<close> is published, the
  flag is raised and the index wraps to 0. Starting at index 0
  (after \<open>fsm_ultrasound_new\<close>, after \<open>fsm_ultrasound_start\<close>, after a batch), \<open>NUM\<close>
  stored samples publish the element \<open>NUM / 2\<close> of these \<open>NUM\<close> samples in ascending order,
  and none of the first \<open>NUM - 1\<close> of them changes the published distance or the flag.
\<close>

theorem batch_median:
  assumes wf: "ultrasound_wf NUM u"
  shows "(ultrasound_state u = WAIT_ECHO_END \<and> check_echo_received u \<longrightarrow>
            fsm_ultrasound_fire NUM SPEED u = (do_set_distance NUM SPEED u)\<lparr>ultrasound_state := SET_DISTANCE\<rparr>)
       \<and> (\<not> (ultrasound_state u = WAIT_ECHO_END \<and> check_echo_received u
              \<and> unat (distance_idx u) = NUM - 1) \<longrightarrow>
            us_distance_cm (fsm_ultrasound_fire NUM SPEED u) = us_distance_cm u
          \<and> new_measurement (fsm_ultrasound_fire NUM SPEED u) = new_measurement u)
       \<and> (unat (distance_idx u) \<noteq> NUM - 1 \<longrightarrow>
            us_distance_cm (do_set_distance NUM SPEED u) = us_distance_cm u
          \<and> new_measurement (do_set_distance NUM SPEED u) = new_measurement u
          \<and> unat (distance_idx (do_set_distance NUM SPEED u)) = unat (distance_idx u) + 1)
       \<and> (unat (distance_idx u) = NUM - 1 \<longrightarrow>
            new_measurement (do_set_distance NUM SPEED u)
          \<and> distance_idx (do_set_distance NUM SPEED u) = 0
          \<and> us_distance_cm (do_set_distance NUM SPEED u)
              = qsort compare_u32 ((distance_arr u)[NUM - 1 := echo_distance SPEED (hw u)]) ! (NUM div 2))
       \<and> (distance_idx u = 0 \<and> length es = NUM \<longrightarrow>
            us_distance_cm (store_samples NUM SPEED u es) = sort (map (sample_of SPEED) es) ! (NUM div 2)
          \<and> new_measurement (store_samples NUM SPEED u es)
          \<and> distance_idx (store_samples NUM SPEED u es) = 0
          \<and> (\<forall>k < NUM.
                us_distance_cm (store_samples NUM SPEED u (take k es)) = us_distance_cm u
              \<and> new_measurement (store_samples NUM SPEED u (take k es)) = new_measurement u
              \<and> unat (distance_idx (store_samples NUM SPEED u (take k es))) = k))"
proof -
  have A: "ultrasound_state u = WAIT_ECHO_END \<and> check_echo_received u \<longrightarrow>
            fsm_ultrasound_fire NUM SPEED u = (do_set_distance NUM SPEED u)\<lparr>ultrasound_state := SET_DISTANCE\<rparr>"
    by (simp add: ultrasound_fire_cases)
  have B: "\<not> (ultrasound_state u = WAIT_ECHO_END \<and> check_echo_received u
              \<and> unat (distance_idx u) = NUM - 1) \<longrightarrow>
            us_distance_cm (fsm_ultrasound_fire NUM SPEED u) = us_distance_cm u
          \<and> new_measurement (fsm_ultrasound_fire NUM SPEED u) = new_measurement u"
    using ultrasound_fire_keeps_distance [OF wf] by blast
  have C: "unat (distance_idx u) \<noteq> NUM - 1 \<longrightarrow>
            us_distance_cm (do_set_distance NUM SPEED u) = us_distance_cm u
          \<and> new_measurement (do_set_distance NUM SPEED u) = new_measurement u
          \<and> unat (distance_idx (do_set_distance NUM SPEED u)) = unat (distance_idx u) + 1"
  proof
    assume ne: "unat (distance_idx u) \<noteq> NUM - 1"
    show "us_distance_cm (do_set_distance NUM SPEED u) = us_distance_cm u
          \<and> new_measurement (do_set_distance NUM SPEED u) = new_measurement u
          \<and> unat (distance_idx (do_set_distance NUM SPEED u)) = unat (distance_idx u) + 1"
      using do_set_distance_inside(2) [OF wf ne]
      by (simp add: do_set_distance_inside(1) [OF wf ne])
  qed
  have D: "unat (distance_idx u) = NUM - 1 \<longrightarrow>
            new_measurement (do_set_distance NUM SPEED u)
          \<and> distance_idx (do_set_distance NUM SPEED u) = 0
          \<and> us_distance_cm (do_set_distance NUM SPEED u)
              = qsort compare_u32 ((distance_arr u)[NUM - 1 := echo_distance SPEED (hw u)]) ! (NUM div 2)"
  proof
    assume eq: "unat (distance_idx u) = NUM - 1"
    show "new_measurement (do_set_distance NUM SPEED u)
          \<and> distance_idx (do_set_distance NUM SPEED u) = 0
          \<and> us_distance_cm (do_set_distance NUM SPEED u)
              = qsort compare_u32 ((distance_arr u)[NUM - 1 := echo_distance SPEED (hw u)]) ! (NUM div 2)"
      by (simp add: do_set_distance_last [OF wf eq])
  qed
  have E: "distance_idx u = 0 \<and> length es = NUM \<longrightarrow>
            us_distance_cm (store_samples NUM SPEED u es) = sort (map (sample_of SPEED) es) ! (NUM div 2)
          \<and> new_measurement (store_samples NUM SPEED u es)
          \<and> distance_idx (store_samples NUM SPEED u es) = 0
          \<and> (\<forall>k < NUM.
                us_distance_cm (store_samples NUM SPEED u (take k es)) = us_distance_cm u
              \<and> new_measurement (store_samples NUM SPEED u (take k es)) = new_measurement u
              \<and> unat (distance_idx (store_samples NUM SPEED u (take k es))) = k)"
  proof
    assume a: "distance_idx u = 0 \<and> length es = NUM"
    then have z: "distance_idx u = 0" and l: "length es = NUM" by simp_all
    note full = store_samples_batch [OF wf z l, of SPEED]
    have pre: "us_distance_cm (store_samples NUM SPEED u (take k es)) = us_distance_cm u
              \<and> new_measurement (store_samples NUM SPEED u (take k es)) = new_measurement u
              \<and> unat (distance_idx (store_samples NUM SPEED u (take k es))) = k" if "k < NUM" for k
    proof -
      from that l z have "unat (distance_idx u) + length (take k es) < NUM" by simp
      from store_samples_inside [OF wf this, of SPEED] that l z show ?thesis by simp
    qed
    from full have f: "us_distance_cm (store_samples NUM SPEED u es) = sort (map (sample_of SPEED) es) ! (NUM div 2)"
        "new_measurement (store_samples NUM SPEED u es)"
        "distance_idx (store_samples NUM SPEED u es) = 0"
      by simp_all
    show "us_distance_cm (store_samples NUM SPEED u es) = sort (map (sample_of SPEED) es) ! (NUM div 2)
          \<and> new_measurement (store_samples NUM SPEED u es)
          \<and> distance_idx (store_samples NUM SPEED u es) = 0
          \<and> (\<forall>k < NUM.
                us_distance_cm (store_samples NUM SPEED u (take k es)) = us_distance_cm u
              \<and> new_measurement (store_samples NUM SPEED u (take k es)) = new_measurement u
              \<and> unat (distance_idx (store_samples NUM SPEED u (take k es))) = k)"
      using f pre by simp
  qed
  show ?thesis by (rule conjI [OF A conjI [OF B conjI [OF C conjI [OF D E]]]])
qed

theorem batch_median_witness:
  "ultrasound_wf 5 (fsm_ultrasound_start (fsm_ultrasound_new 5 1))
   \<and> distance_idx (fsm_ultrasound_start (fsm_ultrasound_new 5 1)) = 0
   \<and> length five_echoes = 5
   \<and> map (sample_of 343) five_echoes = [10, 20, 5, 42, 15]
   \<and> us_distance_cm (store_samples 5 343 (fsm_ultrasound_start (fsm_ultrasound_new 5 1)) five_echoes) = 15
   \<and> new_measurement (store_samples 5 343 (fsm_ultrasound_start (fsm_ultrasound_new 5 1)) five_echoes)
   \<and> distance_idx (store_samples 5 343 (fsm_ultrasound_start (fsm_ultrasound_new 5 1)) five_echoes) = 0
   \<and> us_distance_cm (store_samples 5 343 (fsm_ultrasound_start (fsm_ultrasound_new 5 1)) (take 4 five_echoes)) = 0
   \<and> new_measurement (store_samples 5 343 (fsm_ultrasound_start (fsm_ultrasound_new 5 1)) (take 4 five_echoes)) = False"
proof -
  have wf: "ultrasound_wf 5 (fsm_ultrasound_start (fsm_ultrasound_new 5 1))"
    by (simp add: ultrasound_wf_def fsm_ultrasound_start_def fsm_ultrasound_new_def)
  have z: "distance_idx (fsm_ultrasound_start (fsm_ultrasound_new 5 1)) = 0" by code_simp
  have l: "length five_echoes = 5" by code_simp
  have m: "map (sample_of 343) five_echoes = [10, 20, 5, 42, 15]" by code_simp
  have v: "sort (map (sample_of 343) five_echoes) ! (5 div 2) = 15" by code_simp
  have i: "us_distance_cm (fsm_ultrasound_start (fsm_ultrasound_new 5 1)) = 0"
          "new_measurement (fsm_ultrasound_start (fsm_ultrasound_new 5 1)) = False"
    by code_simp+
  note t = batch_median [OF wf, where SPEED = 343 and es = five_echoes,
      THEN conjunct2, THEN conjunct2, THEN conjunct2, THEN conjunct2, THEN mp, OF conjI [OF z l]]
  have full: "us_distance_cm (store_samples 5 343 (fsm_ultrasound_start (fsm_ultrasound_new 5 1)) five_echoes) = 15"
      "new_measurement (store_samples 5 343 (fsm_ultrasound_start (fsm_ultrasound_new 5 1)) five_echoes)"
      "distance_idx (store_samples 5 343 (fsm_ultrasound_start (fsm_ultrasound_new 5 1)) five_echoes) = 0"
    using t [THEN conjunct1] t [THEN conjunct2, THEN conjunct1]
      t [THEN conjunct2, THEN conjunct2, THEN conjunct1] v
    by simp_all
  have four: "(4 :: nat) < 5" by simp
  note p = t [THEN conjunct2, THEN conjunct2, THEN conjunct2, THEN spec, THEN mp, OF four]
  have pre: "us_distance_cm (store_samples 5 343 (fsm_ultrasound_start (fsm_ultrasound_new 5 1)) (take 4 five_echoes)) = 0"
      "new_measurement (store_samples 5 343 (fsm_ultrasound_start (fsm_ultrasound_new 5 1)) (take 4 five_echoes)) = False"
    using p [THEN conjunct1] p [THEN conjunct2, THEN conjunct1] i by simp_all
  from wf z l m full pre show ?thesis by simp
qed

subsection \<open>Ultrasound: the order of the two rows of \<open>SET_DISTANCE\<close>\<close>

text \<open>
  C7. In \<open>SET_DISTANCE\<close>, when the port reports that the next cycle may start
  (\<open>check_new_measurement\<close>) and the sensor is disabled (\<open>check_off\<close>) at the same fire, the
  row of \<open>check_new_measurement\<close> is the one taken: the FSM goes to \<open>TRIGGER_START\<close> and
  starts a measurement; it does not go to \<open>WAIT_START\<close>.
\<close>

theorem set_distance_new_measurement_first:
  assumes "ultrasound_state u = SET_DISTANCE"
      and "check_new_measurement u"
      and "ultrasound_check_off u"
  shows "fsm_select (fsm_trans_ultrasound NUM SPEED) (ultrasound_state u) u
           = Some (SET_DISTANCE, check_new_measurement, TRIGGER_START, Some do_start_new_measurement)
         \<and> fsm_ultrasound_fire NUM SPEED u = (do_start_new_measurement u)\<lparr>ultrasound_state := TRIGGER_START\<rparr>
         \<and> ultrasound_state (fsm_ultrasound_fire NUM SPEED u) = TRIGGER_START
         \<and> ultrasound_state (fsm_ultrasound_fire NUM SPEED u) \<noteq> WAIT_START"
  using assms by (simp add: fsm_trans_ultrasound_def fsm_ultrasound_fire_def fsm_fire_def)

theorem set_distance_new_measurement_first_witness:
  "ultrasound_state disabled_mid_cycle = SET_DISTANCE
   \<and> check_new_measurement disabled_mid_cycle
   \<and> ultrasound_check_off disabled_mid_cycle
   \<and> distance_arr disabled_mid_cycle = [10, 0, 0, 0, 0]
   \<and> ultrasound_state (fsm_ultrasound_fire 5 343 disabled_mid_cycle) = TRIGGER_START
   \<and> \<not> trigger_ready (hw (fsm_ultrasound_fire 5 343 disabled_mid_cycle))"
proof -
  have h1: "ultrasound_state disabled_mid_cycle = SET_DISTANCE" by code_simp
  have h2: "check_new_measurement disabled_mid_cycle" by code_simp
  have h3: "ultrasound_check_off disabled_mid_cycle" by code_simp
  have h4: "distance_arr disabled_mid_cycle = [10, 0, 0, 0, 0]" by code_simp
  have "ultrasound_state (fsm_ultrasound_fire 5 343 disabled_mid_cycle) = TRIGGER_START
      \<and> \<not> trigger_ready (hw (fsm_ultrasound_fire 5 343 disabled_mid_cycle))"
    using set_distance_new_measurement_first [OF h1 h2 h3, of 5 343]
    by (simp add: do_start_new_measurement_def do_start_measurement_def
        port_ultrasound_start_measurement_def)
  with h1 h2 h3 h4 show ?thesis by simp
qed

subsection \<open>Display and buzzer: tier boundaries and the range\<close>

text \<open>
  C8. At each tier boundary the colour is the anchor of the tier that begins there: red on
  the whole of 0 to 5 cm, yellow at 25, green at 50, turquoise at 150, blue at 175, off at
  200. Above 200 cm and below 0 the colour is off and the buzzer level is 0; this also
  holds for the \<open>int32_t\<close> fields of the two FSMs, whatever bits a \<open>uint32_t\<close> distance left
  in them.
\<close>

theorem display_buzzer_boundaries:
  "compute_display_levels 0 = COLOR_RED
   \<and> compute_display_levels 5 = COLOR_RED
   \<and> compute_display_levels 25 = COLOR_YELLOW
   \<and> compute_display_levels 50 = COLOR_GREEN
   \<and> compute_display_levels 150 = COLOR_TURQUOISE
   \<and> compute_display_levels 175 = COLOR_BLUE
   \<and> compute_display_levels 200 = COLOR_OFF
   \<and> (0 \<le> d_red \<and> d_red \<le> 5 \<longrightarrow> compute_display_levels d_red = COLOR_RED)
   \<and> (d_out > 200 \<or> d_out < 0 \<longrightarrow>
        compute_display_levels d_out = COLOR_OFF \<and> compute_buzzer_levels d_out = 0)
   \<and> (sint w > 200 \<or> sint w < 0 \<longrightarrow>
        rgb (do_set_color (disp\<lparr>disp_distance_cm := w\<rparr>)) = COLOR_OFF
        \<and> sound (do_set_sound (buzz\<lparr>bz_distance_cm := w\<rparr>)) = 0)"
proof -
  have anchors:
    "compute_display_levels 0 = COLOR_RED" "compute_display_levels 5 = COLOR_RED"
    "compute_display_levels 25 = COLOR_YELLOW" "compute_display_levels 50 = COLOR_GREEN"
    "compute_display_levels 150 = COLOR_TURQUOISE" "compute_display_levels 175 = COLOR_BLUE"
    "compute_display_levels 200 = COLOR_OFF"
    by (simp_all add: compute_display_levels_def linear_interp_def tier_defs color_defs)
  have red: "0 \<le> d_red \<and> d_red \<le> 5 \<longrightarrow> compute_display_levels d_red = COLOR_RED"
    by (simp add: compute_display_levels_def tier_defs)
  have out: "x > 200 \<or> x < 0 \<longrightarrow> compute_display_levels x = COLOR_OFF \<and> compute_buzzer_levels x = 0" for x
    by (auto simp add: compute_display_levels_def compute_buzzer_levels_def tier_defs
        PORT_BUZZER_MIN_VALUE_def)
  have fields: "sint w > 200 \<or> sint w < 0 \<longrightarrow>
        rgb (do_set_color (disp\<lparr>disp_distance_cm := w\<rparr>)) = COLOR_OFF
        \<and> sound (do_set_sound (buzz\<lparr>bz_distance_cm := w\<rparr>)) = 0"
    using out [of "sint w"] by (simp add: do_set_color_def do_set_sound_def)
  from anchors red out [of d_out] fields show ?thesis by blast
qed

theorem display_buzzer_boundaries_witness:
  "compute_display_levels 3 = COLOR_RED
   \<and> compute_display_levels 201 = COLOR_OFF \<and> compute_buzzer_levels 201 = 0
   \<and> rgb (do_set_color ((fsm_display_new 1)\<lparr>disp_distance_cm := - 1\<rparr>)) = COLOR_OFF
   \<and> sound (do_set_sound ((fsm_buzzer_new 0)\<lparr>bz_distance_cm := - 1\<rparr>)) = 0"
  using display_buzzer_boundaries [of 3 201 "- 1" "fsm_display_new 1" "fsm_buzzer_new 0"]
  by simp

subsection \<open>Orchestrator: what a fire does in the two measuring states\<close>

lemma fsm_urbanite_fire_unfold:
  "fsm_urbanite_fire s =
     (case fsm_select fsm_trans_urbanite (urbanite_state s) s of
        None \<Rightarrow> s
      | Some (orig, guard, dest, out) \<Rightarrow>
          (case out of None \<Rightarrow> s | Some action \<Rightarrow> action s)\<lparr>urbanite_state := dest\<rparr>)"
  by (simp add: fsm_urbanite_fire_def fsm_fire_def)

lemma select_off:
  "fsm_select fsm_trans_urbanite OFF s =
     (if urbanite_check_on s then Some (OFF, urbanite_check_on, MEASURE_FRONT, Some do_start_up_measure)
      else None)"
  by (simp add: fsm_trans_urbanite_def check_no_activity_def)

lemma select_measure_front:
  "fsm_select fsm_trans_urbanite MEASURE_FRONT s =
     (if urbanite_check_off s then Some (MEASURE_FRONT, urbanite_check_off, OFF, Some do_stop_urbanite)
      else if check_pause s then Some (MEASURE_FRONT, check_pause, MEASURE_FRONT, Some do_pause)
      else if check_new_measure s then Some (MEASURE_FRONT, check_new_measure, MEASURE_FRONT, Some do_distance)
      else if check_rear s then Some (MEASURE_FRONT, check_rear, MEASURE_REAR, Some do_change_rear)
      else None)"
  by (simp add: fsm_trans_urbanite_def check_no_activity_def)

lemma select_measure_rear:
  "fsm_select fsm_trans_urbanite MEASURE_REAR s =
     (if urbanite_check_off s then Some (MEASURE_REAR, urbanite_check_off, OFF, Some do_stop_urbanite)
      else if check_pause s then Some (MEASURE_REAR, check_pause, MEASURE_REAR, Some do_pause)
      else if check_new_measure s then Some (MEASURE_REAR, check_new_measure, MEASURE_REAR, Some do_distance)
      else if check_front s then Some (MEASURE_REAR, check_front, MEASURE_FRONT, Some do_change_front)
      else None)"
  by (simp add: fsm_trans_urbanite_def check_no_activity_def)

lemma select_measure:
  assumes "urbanite_state s = MEASURE_FRONT \<or> urbanite_state s = MEASURE_REAR"
  shows "fsm_select fsm_trans_urbanite (urbanite_state s) s =
     (if urbanite_check_off s then Some (urbanite_state s, urbanite_check_off, OFF, Some do_stop_urbanite)
      else if check_pause s then Some (urbanite_state s, check_pause, urbanite_state s, Some do_pause)
      else if check_new_measure s then Some (urbanite_state s, check_new_measure, urbanite_state s, Some do_distance)
      else if check_front s then
        (if urbanite_state s = MEASURE_FRONT then Some (MEASURE_FRONT, check_rear, MEASURE_REAR, Some do_change_rear)
         else Some (MEASURE_REAR, check_front, MEASURE_FRONT, Some do_change_front))
      else None)"
  using assms by (auto simp add: select_measure_front select_measure_rear check_rear_def)

lemma do_distance_frame:
  "urbanite_state (do_distance s) = urbanite_state s \<and> is_paused (do_distance s) = is_paused s
   \<and> is_rear (do_distance s) = is_rear s \<and> p_fsm_button (do_distance s) = p_fsm_button s"
  by (simp add: do_distance_def fsm_ultrasound_get_distance_def Let_def)

text \<open>
  C1. The claim: after \<open>OFF \<rightarrow> MEASURE_FRONT\<close> the front pair is the live one, whichever
  pair was live before the system was switched off. The code: \<open>do_start_up_measure\<close>
  resets the duration, starts the front ultrasound and sets the front display and the buzzer
  inactive, but it does not write \<open>is_rear\<close>, and neither does \<open>do_stop_urbanite\<close>. When
  the system was switched off from the rear pair, the state is \<open>MEASURE_FRONT\<close> with the
  front ultrasound running while the selector still designates the rear one:
  \<open>check_new_measure\<close> reads the flag of the stopped rear ultrasound and never sees a
  measurement of the front one.
\<close>

theorem cold_start_keeps_selector:
  assumes "urbanite_state s = OFF"
      and "urbanite_check_on s"
      and "is_rear s"
  shows "urbanite_state (fsm_urbanite_fire s) = MEASURE_FRONT
       \<and> us_status (p_fsm_ultrasound_front (fsm_urbanite_fire s))
       \<and> fsm_button_get_duration (p_fsm_button (fsm_urbanite_fire s)) = 0
       \<and> \<not> disp_status (p_fsm_display_front (fsm_urbanite_fire s))
       \<and> \<not> bz_status (p_fsm_buzzer (fsm_urbanite_fire s))
       \<and> is_rear (fsm_urbanite_fire s)
       \<and> live_ultrasound (fsm_urbanite_fire s) = p_fsm_ultrasound_rear s
       \<and> check_new_measure (fsm_urbanite_fire s)
           = fsm_ultrasound_get_new_measurement_ready (p_fsm_ultrasound_rear s)
       \<and> check_new_measure ((fsm_urbanite_fire s)
             \<lparr>p_fsm_ultrasound_front := (p_fsm_ultrasound_front (fsm_urbanite_fire s))\<lparr>new_measurement := nm\<rparr>\<rparr>)
           = fsm_ultrasound_get_new_measurement_ready (p_fsm_ultrasound_rear s)"
  using assms
  by (simp add: fsm_urbanite_fire_unfold select_off do_start_up_measure_def fsm_ultrasound_start_def
      fsm_button_reset_duration_def fsm_button_get_duration_def fsm_display_set_status_def
      fsm_buzzer_set_status_def live_ultrasound_def check_new_measure_def)

theorem cold_start_keeps_selector_witness:
  "urbanite_state second_cold_start = OFF \<and> urbanite_check_on second_cold_start
   \<and> is_rear second_cold_start
   \<and> urbanite_state (fsm_urbanite_fire second_cold_start) = MEASURE_FRONT
   \<and> is_rear (fsm_urbanite_fire second_cold_start)
   \<and> us_status (p_fsm_ultrasound_front (fsm_urbanite_fire second_cold_start))
   \<and> live_ultrasound (fsm_urbanite_fire second_cold_start) = p_fsm_ultrasound_rear second_cold_start
   \<and> \<not> us_status (p_fsm_ultrasound_rear second_cold_start)"
proof -
  have h1: "urbanite_state second_cold_start = OFF" by code_simp
  have h2: "urbanite_check_on second_cold_start" by code_simp
  have h3: "is_rear second_cold_start" by code_simp
  have h4: "\<not> us_status (p_fsm_ultrasound_rear second_cold_start)" by code_simp
  from cold_start_keeps_selector [OF h1 h2 h3] h1 h2 h3 h4 show ?thesis by simp
qed

text \<open>
  C2. The claim: in \<open>MEASURE_FRONT\<close> (or \<open>MEASURE_REAR\<close>) with no pending duration, no new
  measurement and no activity anywhere, a fire goes to \<open>SLEEP_WHILE_ON_FRONT\<close> (or
  \<open>SLEEP_WHILE_ON_REAR\<close>). The code: the guard of that row is \<open>check_no_activity\<close>, whose
  body returns false (the negation of \<open>check_activity\<close> is commented out), so in exactly
  the situation of the claim no row is taken and the orchestrator stays where it is.
\<close>

theorem measure_never_enters_sleep:
  assumes "urbanite_state s = MEASURE_FRONT \<or> urbanite_state s = MEASURE_REAR"
      and "fsm_button_get_duration (p_fsm_button s) = 0"
      and "\<not> check_new_measure s"
      and "\<not> check_activity s"
  shows "fsm_select fsm_trans_urbanite (urbanite_state s) s = None
       \<and> fsm_urbanite_fire s = s
       \<and> urbanite_state (fsm_urbanite_fire s) \<noteq> SLEEP_WHILE_ON_FRONT
       \<and> urbanite_state (fsm_urbanite_fire s) \<noteq> SLEEP_WHILE_ON_REAR"
proof -
  have g: "\<not> urbanite_check_off s" "\<not> check_pause s" "\<not> check_front s"
    using assms(2)
    by (simp_all add: urbanite_check_off_def urbanite_check_on_def check_pause_def check_front_def)
  have sel: "fsm_select fsm_trans_urbanite (urbanite_state s) s = None"
    using g assms(3) by (simp add: select_measure [OF assms(1)])
  then have "fsm_urbanite_fire s = s"
    by (simp add: fsm_urbanite_fire_unfold)
  with sel assms(1) show ?thesis by auto
qed

theorem measure_never_enters_sleep_witness:
  "urbanite_state (main_loop 5 343 (main_init 5 1 0) (press 1000 3200)) = MEASURE_FRONT
   \<and> fsm_button_get_duration (p_fsm_button (main_loop 5 343 (main_init 5 1 0) (press 1000 3200))) = 0
   \<and> \<not> check_new_measure (main_loop 5 343 (main_init 5 1 0) (press 1000 3200))
   \<and> \<not> check_activity (main_loop 5 343 (main_init 5 1 0) (press 1000 3200))
   \<and> urbanite_state (fsm_urbanite_fire (main_loop 5 343 (main_init 5 1 0) (press 1000 3200))) = MEASURE_FRONT"
proof -
  have h1: "urbanite_state (main_loop 5 343 (main_init 5 1 0) (press 1000 3200)) = MEASURE_FRONT"
    by code_simp
  have h2: "fsm_button_get_duration (p_fsm_button (main_loop 5 343 (main_init 5 1 0) (press 1000 3200))) = 0"
    by code_simp
  have h3: "\<not> check_new_measure (main_loop 5 343 (main_init 5 1 0) (press 1000 3200))"
    by code_simp
  have h4: "\<not> check_activity (main_loop 5 343 (main_init 5 1 0) (press 1000 3200))"
    by code_simp
  from measure_never_enters_sleep [OF disjI1 [OF h1] h2 h3 h4] h1 h2 h3 h4 show ?thesis by simp
qed


text \<open>
  C3. While paused, \<open>do_distance\<close> publishes the distance of the live ultrasound to the live
  display and to the buzzer and sets both active when the distance is below 12
  (\<open>WARNING_MIN_CM / 2\<close>); otherwise it sets both inactive and leaves their distance and
  their pending flag as they were. \<open>do_distance\<close> is the action of the new-measurement rows
  of both measuring states.
\<close>

theorem paused_distance_policy:
  assumes "is_paused s"
  shows "(us_distance_cm (live_ultrasound s) < 12 \<longrightarrow>
            disp_distance_cm (live_display (do_distance s)) = us_distance_cm (live_ultrasound s)
          \<and> new_color (live_display (do_distance s))
          \<and> disp_status (live_display (do_distance s))
          \<and> bz_distance_cm (p_fsm_buzzer (do_distance s)) = us_distance_cm (live_ultrasound s)
          \<and> new_sound (p_fsm_buzzer (do_distance s))
          \<and> bz_status (p_fsm_buzzer (do_distance s)))
       \<and> (\<not> us_distance_cm (live_ultrasound s) < 12 \<longrightarrow>
            \<not> disp_status (live_display (do_distance s))
          \<and> \<not> bz_status (p_fsm_buzzer (do_distance s))
          \<and> disp_distance_cm (live_display (do_distance s)) = disp_distance_cm (live_display s)
          \<and> new_color (live_display (do_distance s)) = new_color (live_display s)
          \<and> bz_distance_cm (p_fsm_buzzer (do_distance s)) = bz_distance_cm (p_fsm_buzzer s)
          \<and> new_sound (p_fsm_buzzer (do_distance s)) = new_sound (p_fsm_buzzer s))
       \<and> ((urbanite_state s = MEASURE_FRONT \<or> urbanite_state s = MEASURE_REAR)
            \<and> \<not> urbanite_check_off s \<and> \<not> check_pause s \<and> check_new_measure s \<longrightarrow>
            fsm_urbanite_fire s = do_distance s)"
proof -
  have pol: "(us_distance_cm (live_ultrasound s) < 12 \<longrightarrow>
            disp_distance_cm (live_display (do_distance s)) = us_distance_cm (live_ultrasound s)
          \<and> new_color (live_display (do_distance s))
          \<and> disp_status (live_display (do_distance s))
          \<and> bz_distance_cm (p_fsm_buzzer (do_distance s)) = us_distance_cm (live_ultrasound s)
          \<and> new_sound (p_fsm_buzzer (do_distance s))
          \<and> bz_status (p_fsm_buzzer (do_distance s)))
       \<and> (\<not> us_distance_cm (live_ultrasound s) < 12 \<longrightarrow>
            \<not> disp_status (live_display (do_distance s))
          \<and> \<not> bz_status (p_fsm_buzzer (do_distance s))
          \<and> disp_distance_cm (live_display (do_distance s)) = disp_distance_cm (live_display s)
          \<and> new_color (live_display (do_distance s)) = new_color (live_display s)
          \<and> bz_distance_cm (p_fsm_buzzer (do_distance s)) = bz_distance_cm (p_fsm_buzzer s)
          \<and> new_sound (p_fsm_buzzer (do_distance s)) = new_sound (p_fsm_buzzer s))"
    using assms
    by (simp add: do_distance_def live_display_def live_ultrasound_def fsm_ultrasound_get_distance_def
        fsm_display_set_status_def fsm_display_set_distance_def fsm_buzzer_set_status_def
        fsm_buzzer_set_distance_def WARNING_MIN_CM_def signed_divide_int_def Let_def)
  have fire: "(urbanite_state s = MEASURE_FRONT \<or> urbanite_state s = MEASURE_REAR)
            \<and> \<not> urbanite_check_off s \<and> \<not> check_pause s \<and> check_new_measure s \<longrightarrow>
            fsm_urbanite_fire s = do_distance s"
  proof
    assume a: "(urbanite_state s = MEASURE_FRONT \<or> urbanite_state s = MEASURE_REAR)
            \<and> \<not> urbanite_check_off s \<and> \<not> check_pause s \<and> check_new_measure s"
    then have st: "urbanite_state s = MEASURE_FRONT \<or> urbanite_state s = MEASURE_REAR" by simp
    have "(do_distance s)\<lparr>urbanite_state := urbanite_state s\<rparr> = do_distance s"
      using do_distance_frame [of s] by (metis fsm_urbanite_t.surjective fsm_urbanite_t.update_convs(1))
    with a show "fsm_urbanite_fire s = do_distance s"
      by (simp add: fsm_urbanite_fire_unfold select_measure [OF st])
  qed
  from pol fire show ?thesis by blast
qed

theorem paused_distance_policy_witness:
  "is_paused (paused_batch 600) \<and> is_paused (paused_batch 1200)
   \<and> us_distance_cm (live_ultrasound (paused_batch 600)) = 10
   \<and> us_distance_cm (live_ultrasound (paused_batch 1200)) = 20
   \<and> disp_status (p_fsm_display_front (fsm_urbanite_fire (paused_batch 600)))
   \<and> bz_status (p_fsm_buzzer (fsm_urbanite_fire (paused_batch 600)))
   \<and> disp_distance_cm (p_fsm_display_front (fsm_urbanite_fire (paused_batch 600))) = 10
   \<and> bz_distance_cm (p_fsm_buzzer (fsm_urbanite_fire (paused_batch 600))) = 10
   \<and> \<not> disp_status (p_fsm_display_front (fsm_urbanite_fire (paused_batch 1200)))
   \<and> \<not> bz_status (p_fsm_buzzer (fsm_urbanite_fire (paused_batch 1200)))
   \<and> \<not> new_color (p_fsm_display_front (fsm_urbanite_fire (paused_batch 1200)))
   \<and> \<not> new_sound (p_fsm_buzzer (fsm_urbanite_fire (paused_batch 1200)))"
proof -
  have p: "is_paused (paused_batch 600)" "is_paused (paused_batch 1200)" by code_simp+
  have f: "fsm_urbanite_fire (paused_batch 600) = do_distance (paused_batch 600)"
          "fsm_urbanite_fire (paused_batch 1200) = do_distance (paused_batch 1200)"
    by code_simp+
  have v: "us_distance_cm (live_ultrasound (paused_batch 600)) = 10"
          "us_distance_cm (live_ultrasound (paused_batch 1200)) = 20"
          "live_display (do_distance (paused_batch 600)) = p_fsm_display_front (do_distance (paused_batch 600))"
          "live_display (do_distance (paused_batch 1200)) = p_fsm_display_front (do_distance (paused_batch 1200))"
          "\<not> new_color (live_display (paused_batch 1200))" "\<not> new_sound (p_fsm_buzzer (paused_batch 1200))"
    by code_simp+
  from paused_distance_policy [OF p(1)] paused_distance_policy [OF p(2)] p f v
  show ?thesis by simp
qed

text \<open>
  C5. In a measuring state, with the thresholds ordered as the tiers of the orchestrator are
  (pause below change, change not above on/off) and a positive duration \<open>d\<close>: at \<open>d\<close> equal
  to the pause threshold the pause row is taken; at \<open>d\<close> one below the pause threshold no
  row guarded by a duration is taken (the fire does nothing, or it publishes a new
  measurement, and the duration stays unread); at \<open>d\<close> at or above the on/off threshold the
  on/off row is taken, not the change row.
\<close>

theorem duration_tiers:
  assumes st: "urbanite_state s = MEASURE_FRONT \<or> urbanite_state s = MEASURE_REAR"
      and ord: "pause_display_time_ms s < change_press_time_ms s"
               "change_press_time_ms s \<le> on_off_press_time_ms s"
      and d: "fsm_button_get_duration (p_fsm_button s) = d" "0 < d"
  shows "(d = pause_display_time_ms s \<longrightarrow>
            fsm_select fsm_trans_urbanite (urbanite_state s) s
              = Some (urbanite_state s, check_pause, urbanite_state s, Some do_pause)
          \<and> fsm_urbanite_fire s = do_pause s
          \<and> is_paused (fsm_urbanite_fire s) = (\<not> is_paused s))
       \<and> (unat d + 1 = unat (pause_display_time_ms s) \<longrightarrow>
            (fsm_select fsm_trans_urbanite (urbanite_state s) s = None
             \<or> fsm_select fsm_trans_urbanite (urbanite_state s) s
                 = Some (urbanite_state s, check_new_measure, urbanite_state s, Some do_distance))
          \<and> urbanite_state (fsm_urbanite_fire s) = urbanite_state s
          \<and> is_paused (fsm_urbanite_fire s) = is_paused s
          \<and> is_rear (fsm_urbanite_fire s) = is_rear s
          \<and> p_fsm_button (fsm_urbanite_fire s) = p_fsm_button s)
       \<and> (d \<ge> on_off_press_time_ms s \<longrightarrow>
            fsm_select fsm_trans_urbanite (urbanite_state s) s
              = Some (urbanite_state s, urbanite_check_off, OFF, Some do_stop_urbanite)
          \<and> fsm_urbanite_fire s = (do_stop_urbanite s)\<lparr>urbanite_state := OFF\<rparr>
          \<and> urbanite_state (fsm_urbanite_fire s) = OFF)"
proof -
  note sel = select_measure [OF st]
  note fire = fsm_urbanite_fire_unfold [of s]
  have p1: "d = pause_display_time_ms s \<Longrightarrow> \<not> urbanite_check_off s \<and> check_pause s"
    using ord d by (auto simp add: urbanite_check_off_def urbanite_check_on_def check_pause_def Let_def)
  have lt: "unat d + 1 = unat (pause_display_time_ms s) \<Longrightarrow> d < pause_display_time_ms s"
    by (simp add: word_less_nat_alt)
  have p2: "unat d + 1 = unat (pause_display_time_ms s) \<Longrightarrow>
      \<not> urbanite_check_off s \<and> \<not> check_pause s \<and> \<not> check_front s"
    using ord d lt
    by (auto simp add: urbanite_check_off_def urbanite_check_on_def check_pause_def check_front_def Let_def)
  have p3: "d \<ge> on_off_press_time_ms s \<Longrightarrow> urbanite_check_off s"
    using d by (auto simp add: urbanite_check_off_def urbanite_check_on_def Let_def)
  have sp: "(do_pause s)\<lparr>urbanite_state := urbanite_state s\<rparr> = do_pause s"
    by (simp add: do_pause_def Let_def)
  have tg: "is_paused (do_pause s) = (\<not> is_paused s)"
    by (simp add: do_pause_def Let_def)
  have c1: "d = pause_display_time_ms s \<longrightarrow>
            fsm_select fsm_trans_urbanite (urbanite_state s) s
              = Some (urbanite_state s, check_pause, urbanite_state s, Some do_pause)
          \<and> fsm_urbanite_fire s = do_pause s
          \<and> is_paused (fsm_urbanite_fire s) = (\<not> is_paused s)"
  proof
    assume a: "d = pause_display_time_ms s"
    have 1: "fsm_select fsm_trans_urbanite (urbanite_state s) s
              = Some (urbanite_state s, check_pause, urbanite_state s, Some do_pause)"
      using p1 [OF a] by (simp add: sel)
    then have 2: "fsm_urbanite_fire s = do_pause s"
      by (simp add: fire sp)
    from 1 2 tg show "fsm_select fsm_trans_urbanite (urbanite_state s) s
              = Some (urbanite_state s, check_pause, urbanite_state s, Some do_pause)
          \<and> fsm_urbanite_fire s = do_pause s
          \<and> is_paused (fsm_urbanite_fire s) = (\<not> is_paused s)"
      by simp
  qed
  have c2: "unat d + 1 = unat (pause_display_time_ms s) \<longrightarrow>
            (fsm_select fsm_trans_urbanite (urbanite_state s) s = None
             \<or> fsm_select fsm_trans_urbanite (urbanite_state s) s
                 = Some (urbanite_state s, check_new_measure, urbanite_state s, Some do_distance))
          \<and> urbanite_state (fsm_urbanite_fire s) = urbanite_state s
          \<and> is_paused (fsm_urbanite_fire s) = is_paused s
          \<and> is_rear (fsm_urbanite_fire s) = is_rear s
          \<and> p_fsm_button (fsm_urbanite_fire s) = p_fsm_button s"
  proof
    assume a: "unat d + 1 = unat (pause_display_time_ms s)"
    show "(fsm_select fsm_trans_urbanite (urbanite_state s) s = None
             \<or> fsm_select fsm_trans_urbanite (urbanite_state s) s
                 = Some (urbanite_state s, check_new_measure, urbanite_state s, Some do_distance))
          \<and> urbanite_state (fsm_urbanite_fire s) = urbanite_state s
          \<and> is_paused (fsm_urbanite_fire s) = is_paused s
          \<and> is_rear (fsm_urbanite_fire s) = is_rear s
          \<and> p_fsm_button (fsm_urbanite_fire s) = p_fsm_button s"
      using p2 [OF a] do_distance_frame [of s] by (simp add: sel fire)
  qed
  have c3: "d \<ge> on_off_press_time_ms s \<longrightarrow>
            fsm_select fsm_trans_urbanite (urbanite_state s) s
              = Some (urbanite_state s, urbanite_check_off, OFF, Some do_stop_urbanite)
          \<and> fsm_urbanite_fire s = (do_stop_urbanite s)\<lparr>urbanite_state := OFF\<rparr>
          \<and> urbanite_state (fsm_urbanite_fire s) = OFF"
  proof
    assume a: "d \<ge> on_off_press_time_ms s"
    have 1: "fsm_select fsm_trans_urbanite (urbanite_state s) s
              = Some (urbanite_state s, urbanite_check_off, OFF, Some do_stop_urbanite)"
      using p3 [OF a] by (simp add: sel)
    then have 2: "fsm_urbanite_fire s = (do_stop_urbanite s)\<lparr>urbanite_state := OFF\<rparr>"
      by (simp add: fire)
    from 1 2 show "fsm_select fsm_trans_urbanite (urbanite_state s) s
              = Some (urbanite_state s, urbanite_check_off, OFF, Some do_stop_urbanite)
          \<and> fsm_urbanite_fire s = (do_stop_urbanite s)\<lparr>urbanite_state := OFF\<rparr>
          \<and> urbanite_state (fsm_urbanite_fire s) = OFF"
      by simp
  qed
  from c1 c2 c3 show ?thesis by blast
qed

theorem duration_tiers_witness:
  "urbanite_state (measuring_pressed 500) = MEASURE_FRONT
   \<and> fsm_button_get_duration (p_fsm_button (measuring_pressed 500)) = 500
   \<and> pause_display_time_ms (measuring_pressed 500) = 500
   \<and> is_paused (fsm_urbanite_fire (measuring_pressed 500)) = (\<not> is_paused (measuring_pressed 500))
   \<and> fsm_button_get_duration (p_fsm_button (measuring_pressed 499)) = 499
   \<and> p_fsm_button (fsm_urbanite_fire (measuring_pressed 499)) = p_fsm_button (measuring_pressed 499)
   \<and> is_paused (fsm_urbanite_fire (measuring_pressed 499)) = is_paused (measuring_pressed 499)
   \<and> fsm_button_get_duration (p_fsm_button (measuring_pressed 3000)) = 3000
   \<and> urbanite_state (fsm_urbanite_fire (measuring_pressed 3000)) = OFF"
proof -
  have st: "urbanite_state (measuring_pressed 500) = MEASURE_FRONT"
           "urbanite_state (measuring_pressed 499) = MEASURE_FRONT"
           "urbanite_state (measuring_pressed 3000) = MEASURE_FRONT"
    by code_simp+
  have o1: "pause_display_time_ms (measuring_pressed 500) < change_press_time_ms (measuring_pressed 500)"
           "pause_display_time_ms (measuring_pressed 499) < change_press_time_ms (measuring_pressed 499)"
           "pause_display_time_ms (measuring_pressed 3000) < change_press_time_ms (measuring_pressed 3000)"
    by code_simp+
  have o2: "change_press_time_ms (measuring_pressed 500) \<le> on_off_press_time_ms (measuring_pressed 500)"
           "change_press_time_ms (measuring_pressed 499) \<le> on_off_press_time_ms (measuring_pressed 499)"
           "change_press_time_ms (measuring_pressed 3000) \<le> on_off_press_time_ms (measuring_pressed 3000)"
    by code_simp+
  have d: "fsm_button_get_duration (p_fsm_button (measuring_pressed 500)) = 500"
          "fsm_button_get_duration (p_fsm_button (measuring_pressed 499)) = 499"
          "fsm_button_get_duration (p_fsm_button (measuring_pressed 3000)) = 3000"
    by code_simp+
  have th: "pause_display_time_ms (measuring_pressed 500) = 500"
           "pause_display_time_ms (measuring_pressed 499) = 500"
           "on_off_press_time_ms (measuring_pressed 3000) = 3000"
    by code_simp+
  have e1: "500 = pause_display_time_ms (measuring_pressed 500)"
    by (simp add: th(1))
  have e2: "unat (499 :: u32) + 1 = unat (pause_display_time_ms (measuring_pressed 499))"
    by (simp add: th(2))
  have e3: "on_off_press_time_ms (measuring_pressed 3000) \<le> 3000"
    by (simp add: th(3))
  have pos: "0 < (500 :: u32)" "0 < (499 :: u32)" "0 < (3000 :: u32)"
    by simp_all
  note t1 = duration_tiers [OF disjI1 [OF st(1)] o1(1) o2(1) d(1) pos(1)]
  note t2 = duration_tiers [OF disjI1 [OF st(2)] o1(2) o2(2) d(2) pos(2)]
  note t3 = duration_tiers [OF disjI1 [OF st(3)] o1(3) o2(3) d(3) pos(3)]
  have a: "is_paused (fsm_urbanite_fire (measuring_pressed 500)) = (\<not> is_paused (measuring_pressed 500))"
    using t1 [THEN conjunct1, THEN mp, OF e1] by blast
  have b: "p_fsm_button (fsm_urbanite_fire (measuring_pressed 499)) = p_fsm_button (measuring_pressed 499)
      \<and> is_paused (fsm_urbanite_fire (measuring_pressed 499)) = is_paused (measuring_pressed 499)"
    using t2 [THEN conjunct2, THEN conjunct1, THEN mp, OF e2] by blast
  have c: "urbanite_state (fsm_urbanite_fire (measuring_pressed 3000)) = OFF"
    using t3 [THEN conjunct2, THEN conjunct2, THEN mp, OF e3] by blast
  from a b c st d th show ?thesis by simp
qed

subsection \<open>Ultrasound: what a restart keeps\<close>

text \<open>
  C10. \<open>fsm_ultrasound_start\<close> sets the status and resets the index and the distance to 0;
  it does not touch \<open>new_measurement\<close>, and neither does \<open>fsm_ultrasound_stop\<close>. A flag that
  is pending when the sensor is stopped is still up after the restart, next to a distance
  of 0, and the orchestrator then publishes 0 to the live display and to the buzzer and
  sets both active (also when it is paused, 0 being below 12).
\<close>

theorem start_keeps_new_measurement:
  "us_status (fsm_ultrasound_start u)
   \<and> distance_idx (fsm_ultrasound_start u) = 0
   \<and> us_distance_cm (fsm_ultrasound_start u) = 0
   \<and> new_measurement (fsm_ultrasound_start u) = new_measurement u
   \<and> fsm_ultrasound_get_new_measurement_ready (fsm_ultrasound_start (fsm_ultrasound_stop u))
       = fsm_ultrasound_get_new_measurement_ready u
   \<and> fst (fsm_ultrasound_get_distance (fsm_ultrasound_start (fsm_ultrasound_stop u))) = 0
   \<and> ((urbanite_state s = MEASURE_FRONT \<or> urbanite_state s = MEASURE_REAR)
        \<and> \<not> urbanite_check_off s \<and> \<not> check_pause s
        \<and> fsm_ultrasound_get_new_measurement_ready (live_ultrasound s)
        \<and> us_distance_cm (live_ultrasound s) = 0 \<longrightarrow>
          disp_distance_cm (live_display (fsm_urbanite_fire s)) = 0
        \<and> new_color (live_display (fsm_urbanite_fire s))
        \<and> disp_status (live_display (fsm_urbanite_fire s))
        \<and> bz_distance_cm (p_fsm_buzzer (fsm_urbanite_fire s)) = 0
        \<and> new_sound (p_fsm_buzzer (fsm_urbanite_fire s))
        \<and> bz_status (p_fsm_buzzer (fsm_urbanite_fire s)))"
proof -
  have frame: "us_status (fsm_ultrasound_start u)
   \<and> distance_idx (fsm_ultrasound_start u) = 0
   \<and> us_distance_cm (fsm_ultrasound_start u) = 0
   \<and> new_measurement (fsm_ultrasound_start u) = new_measurement u
   \<and> fsm_ultrasound_get_new_measurement_ready (fsm_ultrasound_start (fsm_ultrasound_stop u))
       = fsm_ultrasound_get_new_measurement_ready u
   \<and> fst (fsm_ultrasound_get_distance (fsm_ultrasound_start (fsm_ultrasound_stop u))) = 0"
    by (simp add: fsm_ultrasound_start_def fsm_ultrasound_stop_def
        fsm_ultrasound_get_new_measurement_ready_def fsm_ultrasound_get_distance_def)
  have consume: "(urbanite_state s = MEASURE_FRONT \<or> urbanite_state s = MEASURE_REAR)
        \<and> \<not> urbanite_check_off s \<and> \<not> check_pause s
        \<and> fsm_ultrasound_get_new_measurement_ready (live_ultrasound s)
        \<and> us_distance_cm (live_ultrasound s) = 0 \<longrightarrow>
          disp_distance_cm (live_display (fsm_urbanite_fire s)) = 0
        \<and> new_color (live_display (fsm_urbanite_fire s))
        \<and> disp_status (live_display (fsm_urbanite_fire s))
        \<and> bz_distance_cm (p_fsm_buzzer (fsm_urbanite_fire s)) = 0
        \<and> new_sound (p_fsm_buzzer (fsm_urbanite_fire s))
        \<and> bz_status (p_fsm_buzzer (fsm_urbanite_fire s))"
  proof
    assume a: "(urbanite_state s = MEASURE_FRONT \<or> urbanite_state s = MEASURE_REAR)
        \<and> \<not> urbanite_check_off s \<and> \<not> check_pause s
        \<and> fsm_ultrasound_get_new_measurement_ready (live_ultrasound s)
        \<and> us_distance_cm (live_ultrasound s) = 0"
    then have st: "urbanite_state s = MEASURE_FRONT \<or> urbanite_state s = MEASURE_REAR" by simp
    from a have nm: "check_new_measure s"
      by (auto simp add: check_new_measure_def live_ultrasound_def split: if_splits)
    have keep: "(do_distance s)\<lparr>urbanite_state := urbanite_state s\<rparr> = do_distance s"
      by (simp add: do_distance_def fsm_ultrasound_get_distance_def Let_def)
    from a nm have f: "fsm_urbanite_fire s = do_distance s"
      by (simp add: fsm_urbanite_fire_unfold select_measure [OF st] keep)
    from a show "disp_distance_cm (live_display (fsm_urbanite_fire s)) = 0
        \<and> new_color (live_display (fsm_urbanite_fire s))
        \<and> disp_status (live_display (fsm_urbanite_fire s))
        \<and> bz_distance_cm (p_fsm_buzzer (fsm_urbanite_fire s)) = 0
        \<and> new_sound (p_fsm_buzzer (fsm_urbanite_fire s))
        \<and> bz_status (p_fsm_buzzer (fsm_urbanite_fire s))"
      unfolding f
      by (cases "is_rear s")
         (simp_all add: do_distance_def live_display_def live_ultrasound_def
            fsm_ultrasound_get_distance_def fsm_display_set_status_def fsm_display_set_distance_def
            fsm_buzzer_set_status_def fsm_buzzer_set_distance_def WARNING_MIN_CM_def
            signed_divide_int_def Let_def)
  qed
  from frame consume show ?thesis by blast
qed

theorem start_keeps_new_measurement_witness:
  "urbanite_state stale_flag_restart = MEASURE_FRONT
   \<and> \<not> urbanite_check_off stale_flag_restart \<and> \<not> check_pause stale_flag_restart
   \<and> fsm_ultrasound_get_new_measurement_ready (live_ultrasound stale_flag_restart)
   \<and> us_distance_cm (live_ultrasound stale_flag_restart) = 0
   \<and> distance_arr (live_ultrasound stale_flag_restart) = [10, 10, 10, 10, 10]
   \<and> live_display (fsm_urbanite_fire stale_flag_restart)
       = p_fsm_display_front (fsm_urbanite_fire stale_flag_restart)
   \<and> disp_distance_cm (p_fsm_display_front (fsm_urbanite_fire stale_flag_restart)) = 0
   \<and> disp_status (p_fsm_display_front (fsm_urbanite_fire stale_flag_restart))
   \<and> bz_distance_cm (p_fsm_buzzer (fsm_urbanite_fire stale_flag_restart)) = 0
   \<and> bz_status (p_fsm_buzzer (fsm_urbanite_fire stale_flag_restart))"
proof -
  have h: "urbanite_state stale_flag_restart = MEASURE_FRONT"
          "\<not> urbanite_check_off stale_flag_restart" "\<not> check_pause stale_flag_restart"
          "fsm_ultrasound_get_new_measurement_ready (live_ultrasound stale_flag_restart)"
          "us_distance_cm (live_ultrasound stale_flag_restart) = 0"
          "distance_arr (live_ultrasound stale_flag_restart) = [10, 10, 10, 10, 10]"
          "live_display (fsm_urbanite_fire stale_flag_restart)
             = p_fsm_display_front (fsm_urbanite_fire stale_flag_restart)"
    by code_simp+
  from start_keeps_new_measurement
         [where s = stale_flag_restart and u = "p_fsm_ultrasound_front stale_flag_restart"] h
  show ?thesis by simp
qed

subsection \<open>Orchestrator: the activity test\<close>

text \<open>
  C9. \<open>fsm_ultrasound_check_activity\<close> is false for every ultrasound struct, so the
  orchestrator's \<open>check_activity\<close> is the disjunction of the button, the two displays and the
  buzzer, and no change of the two ultrasounds changes it. In particular the wake-up row of
  \<open>SLEEP_WHILE_OFF\<close> is taken exactly when one of those four reports activity.
\<close>

theorem ultrasound_never_active:
  "fsm_ultrasound_check_activity u = False
   \<and> check_activity s =
       (fsm_button_check_activity (p_fsm_button s)
        \<or> fsm_display_check_activity (p_fsm_display_front s)
        \<or> fsm_display_check_activity (p_fsm_display_rear s)
        \<or> fsm_buzzer_check_activity (p_fsm_buzzer s))
   \<and> check_activity (s\<lparr>p_fsm_ultrasound_front := uf, p_fsm_ultrasound_rear := ur\<rparr>) = check_activity s
   \<and> urbanite_state (fsm_urbanite_fire
        (s\<lparr>urbanite_state := SLEEP_WHILE_OFF, p_fsm_ultrasound_front := uf, p_fsm_ultrasound_rear := ur\<rparr>))
       = (if fsm_button_check_activity (p_fsm_button s)
             \<or> fsm_display_check_activity (p_fsm_display_front s)
             \<or> fsm_display_check_activity (p_fsm_display_rear s)
             \<or> fsm_buzzer_check_activity (p_fsm_buzzer s)
          then OFF else SLEEP_WHILE_OFF)"
  by (simp add: fsm_ultrasound_check_activity_def check_activity_def check_no_activity_def
      fsm_urbanite_fire_def fsm_trans_urbanite_def fsm_fire_def)

theorem ultrasound_never_active_witness:
  "fsm_ultrasound_check_activity
      ((fsm_ultrasound_new 5 1)\<lparr>ultrasound_state := WAIT_ECHO_END, us_status := True\<rparr>) = False
   \<and> check_activity (main_init 5 1 0) = False
   \<and> check_activity ((main_init 5 1 0)
        \<lparr>p_fsm_ultrasound_front := (fsm_ultrasound_new 5 1)\<lparr>ultrasound_state := WAIT_ECHO_END, us_status := True\<rparr>,
          p_fsm_ultrasound_rear := fsm_ultrasound_new 5 0\<rparr>) = False
   \<and> urbanite_state (fsm_urbanite_fire ((main_init 5 1 0)
        \<lparr>urbanite_state := SLEEP_WHILE_OFF,
          p_fsm_ultrasound_front := (fsm_ultrasound_new 5 1)\<lparr>ultrasound_state := WAIT_ECHO_END, us_status := True\<rparr>,
          p_fsm_ultrasound_rear := fsm_ultrasound_new 5 0\<rparr>)) = SLEEP_WHILE_OFF"
proof -
  have quiet: "\<not> (fsm_button_check_activity (p_fsm_button (main_init 5 1 0))
      \<or> fsm_display_check_activity (p_fsm_display_front (main_init 5 1 0))
      \<or> fsm_display_check_activity (p_fsm_display_rear (main_init 5 1 0))
      \<or> fsm_buzzer_check_activity (p_fsm_buzzer (main_init 5 1 0)))"
    by (simp add: main_init_def fsm_urbanite_new_def fsm_button_new_def fsm_display_new_def
      fsm_buzzer_new_def fsm_button_check_activity_def fsm_display_check_activity_def
      fsm_buzzer_check_activity_def)
  note inst = ultrasound_never_active
    [where u = "(fsm_ultrasound_new 5 1)\<lparr>ultrasound_state := WAIT_ECHO_END, us_status := True\<rparr>"
       and s = "main_init 5 1 0"
       and uf = "(fsm_ultrasound_new 5 1)\<lparr>ultrasound_state := WAIT_ECHO_END, us_status := True\<rparr>"
       and ur = "fsm_ultrasound_new 5 0"]
  from inst quiet show ?thesis by simp
qed

end
